theory Spec2Isabelle
  imports Complex_Main
begin

section \<open>Data model\<close>

text \<open>
  A shallow embedding of \<^verbatim>\<open>src/projector.py\<close> (class \<^verbatim>\<open>Projector\<close>).
  Python floats and tensor entries are idealised as real numbers, Python integers are
  \<open>int\<close>.  A latent tensor is a matrix (a list of rows), an image tensor is its shape with
  its flat data.
\<close>

type_synonym vec = "real list"
type_synonym matrix = "real list list"
type_synonym addr = nat

datatype py_error =
  TypeError | ZeroDivisionError | IndexError | AttributeError | RuntimeError

record image =
  shape :: "nat list"
  pixels :: "real list"

text \<open>
  Latent tensors are mutated in place by the optimizer and are shared between the
  Projector, the optimizer and the caller, so they live in an explicit store: a tensor
  object is a handle on a storage cell, with its \<^verbatim>\<open>requires_grad\<close> flag, whether it is
  a leaf of the autograd graph, and whether its dtype is floating point (or complex): the
  setter of \<^verbatim>\<open>requires_grad\<close> raises \<^verbatim>\<open>RuntimeError\<close> on a tensor that is not a leaf, and
  on one whose dtype cannot carry a gradient.
\<close>

record tensor =
  storage :: addr
  requires_grad :: bool
  is_leaf :: bool
  is_float :: bool

record heap =
  cells :: "addr \<Rightarrow> matrix"
  next_free :: addr

text \<open>What the methods write to the terminal (the numbers unformatted).\<close>

datatype event =
  InfoFinding nat
  | InfoStd real
  | InfoRunning
  | PrintShape "nat list"
  | SetDescription real real

text \<open>
  The state of \<^verbatim>\<open>torch.optim.Adam\<close> for its single parameter: created empty, filled by
  the first \<^verbatim>\<open>step()\<close>.
\<close>

record adam_state =
  step_count :: nat
  exp_avg :: matrix
  exp_avg_sq :: matrix

record optimizer =
  opt_param :: tensor
  param_lr :: real
  ostate :: "adam_state option"

text \<open>
  The collaborators the class calls and that are not part of \<^verbatim>\<open>projector.py\<close>, taken as
  parameters: the generator \<^verbatim>\<open>g\<close> (its mapping network \<^verbatim>\<open>style\<close>, its \<^verbatim>\<open>n_latent\<close>, and its
  synthesis from a latent with \<^verbatim>\<open>input_is_latent=True\<close> and its own noise buffers),
  \<^verbatim>\<open>utils.downsample_256\<close>, the perceptual loss \<^verbatim>\<open>lpips\<close>, \<^verbatim>\<open>F.mse_loss\<close>, the random
  source (\<open>randn k\<close> is the \<open>k\<close>-th draw after \<^verbatim>\<open>torch.manual_seed(123)\<close>), and autograd
  (\<open>backward f x\<close> is the gradient at \<open>x\<close> of the scalar \<open>f\<close> of the leaf tensor).
\<close>

record env =
  g_style :: "matrix \<Rightarrow> matrix"
  g_n_latent :: nat
  g_synth :: "matrix \<Rightarrow> image"
  downsample_256 :: "image \<Rightarrow> image"
  lpips :: "image \<Rightarrow> image \<Rightarrow> real list"
  mse_loss :: "image \<Rightarrow> image \<Rightarrow> real"
  randn :: "nat \<Rightarrow> nat \<Rightarrow> nat \<Rightarrow> matrix"
  randn_like :: "nat \<Rightarrow> matrix \<Rightarrow> matrix"
  backward :: "(matrix \<Rightarrow> real) \<Rightarrow> matrix \<Rightarrow> matrix"

text \<open>
  The attributes of a \<^verbatim>\<open>Projector\<close>, followed by the process-wide state its methods
  touch: the tensor store, the position of the global random generator, and the terminal.
  \<open>target_image\<close> and \<open>img_gen\<close> are \<open>None\<close> while the attribute does not exist yet.
\<close>

record projector =
  num_steps :: int
  n_mean_latent :: nat
  mse_strength :: real
  initial_lr :: real
  lr :: real
  initial_noise_factor :: real
  lr_rampdown_length :: real
  lr_rampup_length :: real
  noise_ramp_length :: real
  regularize_noise_weight :: real
  verbose :: bool
  latent_expr :: "matrix option"
  target_images :: "image option"
  loss :: "real option"
  cur_step :: "int option"
  latent_mean :: vec
  latent_std :: real
  latent_in :: tensor
  opt :: optimizer
  target_image :: "image option"
  img_gen :: "image option"
  mem :: heap
  rng :: nat
  out :: "event list"



section \<open>Tensor operations\<close>

definition vadd :: "vec \<Rightarrow> vec \<Rightarrow> vec" where
  "vadd a b = map2 (+) a b"

definition madd :: "matrix \<Rightarrow> matrix \<Rightarrow> matrix" where
  "madd A B = map2 vadd A B"

definition mscale :: "matrix \<Rightarrow> real \<Rightarrow> matrix" where
  "mscale A c = map (map (\<lambda>x. x * c)) A"

definition mzip_with :: "(real \<Rightarrow> real \<Rightarrow> real) \<Rightarrow> matrix \<Rightarrow> matrix \<Rightarrow> matrix" where
  "mzip_with f A B = map2 (map2 f) A B"

definition zeros_like :: "matrix \<Rightarrow> matrix" where
  "zeros_like A = map (map (\<lambda>_. 0)) A"





definition unsqueeze0 :: "image \<Rightarrow> image" where
  "unsqueeze0 x = x\<lparr>shape := 1 # shape x\<rparr>"

definition deref :: "projector \<Rightarrow> tensor \<Rightarrow> matrix" where
  "deref s t = cells (mem s) (storage t)"

section \<open>The optimizer\<close>

text \<open>
  One \<^verbatim>\<open>step()\<close> of \<^verbatim>\<open>torch.optim.Adam\<close> with the library defaults the constructor leaves
  in place (betas 0.9 and 0.999, eps 1e-8, no weight decay, no amsgrad), for a parameter
  of value \<open>p\<close> with gradient \<open>g\<close>: the new value, which the library writes into the
  parameter's own storage, and the new optimizer state.
\<close>

definition adam_step ::
  "adam_state option \<Rightarrow> real \<Rightarrow> matrix \<Rightarrow> matrix \<Rightarrow> matrix \<times> adam_state option" where
  "adam_step st rate g p =
     (let st0 = (case st of
                   None \<Rightarrow> \<lparr>step_count = 0, exp_avg = zeros_like p, exp_avg_sq = zeros_like p\<rparr>
                 | Some x \<Rightarrow> x);
          k = Suc (step_count st0);
          m = mzip_with (\<lambda>m gr. 0.9 * m + 0.1 * gr) (exp_avg st0) g;
          v = mzip_with (\<lambda>v gr. 0.999 * v + 0.001 * (gr * gr)) (exp_avg_sq st0) g;
          bias_correction1 = 1 - 0.9 ^ k;
          bias_correction2 = 1 - 0.999 ^ k;
          step_size = rate / bias_correction1;
          upd = mzip_with (\<lambda>m v. m / (sqrt v / sqrt bias_correction2 + 1 / 10 ^ 8)) m v
      in (mzip_with (\<lambda>x u. x - step_size * u) p upd,
          Some \<lparr>step_count = k, exp_avg = m, exp_avg_sq = v\<rparr>))"

section \<open>The constructor\<close>


section \<open>The schedule and one optimization step\<close>

text \<open>Line 137: \<^verbatim>\<open>t = self.cur_step / self.num_steps\<close>.\<close>

definition progress :: "projector \<Rightarrow> py_error + real" where
  "progress s =
     (case cur_step s of
        None \<Rightarrow> Inl TypeError
      | Some i \<Rightarrow>
          if num_steps s = 0 then Inl ZeroDivisionError
          else Inr (real_of_int i / real_of_int (num_steps s)))"

text \<open>Lines 140-141: the strength of the noise added to the latent.\<close>

definition noise_strength :: "projector \<Rightarrow> real \<Rightarrow> py_error + real" where
  "noise_strength s t =
     (if noise_ramp_length s = 0 then Inl ZeroDivisionError
      else Inr (latent_std s * initial_noise_factor s
                  * (max 0 (1 - t / noise_ramp_length s))\<^sup>2))"

text \<open>Lines 87-92.\<close>

definition update_lr :: "real \<Rightarrow> projector \<Rightarrow> py_error + projector" where
  "update_lr t s =
     (if lr_rampdown_length s = 0 then Inl ZeroDivisionError
      else
        let lr_ramp = min 1 ((1 - t) / lr_rampdown_length s);
            lr_ramp = 0.5 - 0.5 * cos (lr_ramp * pi)
        in if lr_rampup_length s = 0 then Inl ZeroDivisionError
           else
             let lr_ramp = lr_ramp * min 1 (t / lr_rampup_length s);
                 new_lr = initial_lr s * lr_ramp
             in Inr (s\<lparr>lr := new_lr, opt := (opt s)\<lparr>param_lr := new_lr\<rparr>\<rparr>))"

text \<open>Lines 150-154: the generator on a latent, downsampled.\<close>

definition forward :: "env \<Rightarrow> matrix \<Rightarrow> image" where
  "forward e z = downsample_256 e (g_synth e z)"

text \<open>Lines 157-161: the perceptual loss, plus the weighted MSE when its weight is set.\<close>

definition total_loss :: "env \<Rightarrow> projector \<Rightarrow> image \<Rightarrow> image \<Rightarrow> real" where
  "total_loss e s tgt img =
     sum_list (lpips e img tgt)
       + (if mse_strength s \<noteq> 0 then mse_loss e img tgt * mse_strength s else 0)"

text \<open>
  \<^verbatim>\<open>Projector.step\<close> (lines 135-170).  The loss is a function of the leaf tensor
  \<^verbatim>\<open>latent_in\<close> through \<^verbatim>\<open>latent_expr = latent_in + latent_noise\<close>; \<^verbatim>\<open>backward\<close> takes its
  gradient at the current value of the leaf, and \<^verbatim>\<open>opt.step()\<close> overwrites the storage
  of the optimizer's parameter.
\<close>

definition step :: "env \<Rightarrow> projector \<Rightarrow> py_error + projector" where
  "step e s =
     (case progress s of
        Inl err \<Rightarrow> Inl err
      | Inr t \<Rightarrow>
     (case noise_strength s t of
        Inl err \<Rightarrow> Inl err
      | Inr ns \<Rightarrow>
     (let x = deref s (latent_in s);
          latent_noise = mscale (randn_like e (rng s) x) ns;
          lexpr = madd x latent_noise;
          s1 = s\<lparr>latent_expr := Some lexpr, rng := Suc (rng s)\<rparr>
      in case update_lr t s1 of
           Inl err \<Rightarrow> Inl err
         | Inr s2 \<Rightarrow>
        (case target_image s2 of
           None \<Rightarrow> Inl AttributeError
         | Some tgt \<Rightarrow>
            (let img = forward e lexpr;
                 l = total_loss e s2 tgt img;
                 g = backward e (\<lambda>y. total_loss e s2 tgt (forward e (madd y latent_noise))) x;
                 a = storage (opt_param (opt s2));
                 (p', st') = adam_step (ostate (opt s2)) (param_lr (opt s2)) g (cells (mem s2) a)
             in Inr (s2\<lparr>img_gen := Some img,
                         loss := Some l,
                         mem := (mem s2)\<lparr>cells := (cells (mem s2))(a := p')\<rparr>,
                         opt := (opt s2)\<lparr>ostate := st'\<rparr>\<rparr>))))))"

section \<open>Running the optimization\<close>

text \<open>Lines 115-121.  \<^verbatim>\<open>shape[2]\<close> of a tensor with fewer than three dimensions raises.\<close>

definition prepare_input :: "env \<Rightarrow> image \<Rightarrow> projector \<Rightarrow> py_error + projector" where
  "prepare_input e target s =
     (let target1 = (if length (shape target) = 3 then unsqueeze0 target else target)
      in if length (shape target1) \<le> 2 then Inl IndexError
         else
           let target2 = (if shape target1 ! 2 > 256 then downsample_256 e target1 else target1)
           in Inr (s\<lparr>target_image := Some target2,
                      out := out s @ [PrintShape (shape target2)]\<rparr>))"

text \<open>\<^verbatim>\<open>range(n)\<close>: the integers from 0 up to \<open>n - 1\<close>, none when \<open>n \<le> 0\<close>.\<close>

definition py_range :: "int \<Rightarrow> int list" where
  "py_range n = map int [0..<nat n]"

text \<open>The \<^verbatim>\<open>for\<close> loop of \<^verbatim>\<open>run\<close> (lines 129-133) over the items of its range.\<close>

fun run_steps :: "env \<Rightarrow> int list \<Rightarrow> projector \<Rightarrow> py_error + projector" where
  "run_steps e [] s = Inr s"
| "run_steps e (i # rest) s =
     (case step e (s\<lparr>cur_step := Some i\<rparr>) of
        Inl err \<Rightarrow> Inl err
      | Inr s' \<Rightarrow>
          (case loss s' of
             None \<Rightarrow> Inl AttributeError
           | Some l \<Rightarrow> run_steps e rest (s'\<lparr>out := out s' @ [SetDescription l (lr s')]\<rparr>)))"

text \<open>\<^verbatim>\<open>Projector.run\<close> (lines 123-133).\<close>

definition run :: "env \<Rightarrow> image \<Rightarrow> int \<Rightarrow> projector \<Rightarrow> py_error + projector" where
  "run e target n s =
     (case prepare_input e target (s\<lparr>num_steps := n\<rparr>) of
        Inl err \<Rightarrow> Inl err
      | Inr s1 \<Rightarrow>
          run_steps e (py_range (num_steps s1))
            (s1\<lparr>out := out s1 @ (if verbose s1 then [InfoRunning] else [])\<rparr>))"

section \<open>Reading the results\<close>

text \<open>Lines 175-181.  Each method returns its result and the state it leaves.\<close>

definition get_images :: "env \<Rightarrow> projector \<Rightarrow> image \<times> projector" where
  "get_images e s = (g_synth e (deref s (latent_in s)), s)"

text \<open>
  \<^verbatim>\<open>Tensor.detach()\<close> makes a new tensor object without gradient tracking on the
  \<^emph>\<open>same\<close> storage; a detached tensor is a leaf.
\<close>

definition get_latents :: "projector \<Rightarrow> tensor \<times> projector" where
  "get_latents s = ((latent_in s)\<lparr>requires_grad := False, is_leaf := True\<rparr>, s)"

section \<open>Notions used to state the properties\<close>

text \<open>
  The formulas of the schedule as the specification words them (section 4.3, items 1
  and 3), to be compared with \<open>noise_strength\<close> and \<open>update_lr\<close>.
\<close>

definition spec_effective_lr :: "projector \<Rightarrow> real \<Rightarrow> real" where
  "spec_effective_lr s t =
     initial_lr s * (0.5 - 0.5 * cos (min 1 ((1 - t) / lr_rampdown_length s) * pi))
       * min 1 (t / lr_rampup_length s)"

definition spec_noise_magnitude :: "projector \<Rightarrow> real \<Rightarrow> real" where
  "spec_noise_magnitude s t =
     latent_std s * initial_noise_factor s * (max 0 (1 - t / noise_ramp_length s))\<^sup>2"

text \<open>The progress-bar descriptions among the terminal output: one per finished step.\<close>

fun is_description :: "event \<Rightarrow> bool" where
  "is_description (SetDescription l r) = True"
| "is_description _ = False"

text \<open>
  The states on which the loop \<open>run_steps\<close> invokes \<^verbatim>\<open>step\<close>, in order.  The proofs use this
  list to exhibit the sequence of calls; the lemma \<open>run_steps_chain\<close> ties it to \<open>run_steps\<close>
  and \<open>step\<close>, and the statements of the claims speak of \<open>run\<close> and \<open>step\<close> only.
\<close>

fun step_calls :: "env \<Rightarrow> int list \<Rightarrow> projector \<Rightarrow> projector list" where
  "step_calls e [] s = []"
| "step_calls e (i # rest) s =
     s\<lparr>cur_step := Some i\<rparr> #
     (case step e (s\<lparr>cur_step := Some i\<rparr>) of
        Inl err \<Rightarrow> []
      | Inr s' \<Rightarrow>
          (case loss s' of
             None \<Rightarrow> []
           | Some l \<Rightarrow> step_calls e rest (s'\<lparr>out := out s' @ [SetDescription l (lr s')]\<rparr>)))"

text \<open>The state a step leaves when none of its divisions fails, written out.\<close>

definition step_result :: "env \<Rightarrow> projector \<Rightarrow> real \<Rightarrow> image \<Rightarrow> projector" where
  "step_result e s t tgt =
     (let x = deref s (latent_in s);
          latent_noise = mscale (randn_like e (rng s) x) (spec_noise_magnitude s t);
          lexpr = madd x latent_noise;
          rate = spec_effective_lr s t;
          g = backward e (\<lambda>y. total_loss e s tgt (forward e (madd y latent_noise))) x;
          a = storage (opt_param (opt s));
          r = adam_step (ostate (opt s)) rate g (cells (mem s) a)
      in s\<lparr>latent_expr := Some lexpr, rng := Suc (rng s), lr := rate,
            img_gen := Some (forward e lexpr),
            loss := Some (total_loss e s tgt (forward e lexpr)),
            mem := (mem s)\<lparr>cells := (cells (mem s))(a := fst r)\<rparr>,
            opt := (opt s)\<lparr>param_lr := rate, ostate := snd r\<rparr>\<rparr>)"

text \<open>The attributes and handles that neither \<^verbatim>\<open>step\<close> nor the loop assigns.\<close>

definition same_setup :: "projector \<Rightarrow> projector \<Rightarrow> bool" where
  "same_setup s s' \<longleftrightarrow>
     num_steps s' = num_steps s \<and> n_mean_latent s' = n_mean_latent s \<and>
     mse_strength s' = mse_strength s \<and> initial_lr s' = initial_lr s \<and>
     initial_noise_factor s' = initial_noise_factor s \<and>
     lr_rampdown_length s' = lr_rampdown_length s \<and>
     lr_rampup_length s' = lr_rampup_length s \<and>
     noise_ramp_length s' = noise_ramp_length s \<and>
     regularize_noise_weight s' = regularize_noise_weight s \<and>
     verbose s' = verbose s \<and> target_images s' = target_images s \<and>
     latent_mean s' = latent_mean s \<and> latent_std s' = latent_std s \<and>
     latent_in s' = latent_in s \<and> opt_param (opt s') = opt_param (opt s) \<and>
     target_image s' = target_image s \<and> next_free (mem s') = next_free (mem s)"

text \<open>What a step needs besides a step index: nonzero divisors and a target.\<close>

definition ready :: "projector \<Rightarrow> bool" where
  "ready s \<longleftrightarrow>
     num_steps s \<noteq> 0 \<and> noise_ramp_length s \<noteq> 0 \<and> lr_rampdown_length s \<noteq> 0 \<and>
     lr_rampup_length s \<noteq> 0 \<and> target_image s \<noteq> None"

text \<open>
  The tensor \<^verbatim>\<open>prepare_input\<close> stores for a target of at least three dimensions, and
  the state in which \<^verbatim>\<open>run\<close> enters its loop.
\<close>

definition batched :: "image \<Rightarrow> image" where
  "batched target = (if length (shape target) = 3 then unsqueeze0 target else target)"

definition prepared :: "env \<Rightarrow> image \<Rightarrow> image" where
  "prepared e target =
     (if 256 < shape (batched target) ! 2 then downsample_256 e (batched target)
      else batched target)"

definition loop_entry :: "env \<Rightarrow> projector \<Rightarrow> int \<Rightarrow> image \<Rightarrow> projector" where
  "loop_entry e s n target =
     s\<lparr>num_steps := n, target_image := Some (prepared e target),
       out := out s @ PrintShape (shape (prepared e target))
                # (if verbose s then [InfoRunning] else [])\<rparr>"


section \<open>A concrete environment\<close>

text \<open>
  A small generator and loss on which the methods can be evaluated.  The mapping network
  doubles the first noise coordinate, the sample has 5000 rows of ones and 5000 rows of
  minus ones, so the mapped latents are 5000 rows \<open>[2, 0]\<close> and 5000 rows \<open>[-2, 0]\<close>.  The
  generator paints a 3 x 256 x 256 image with the sum of the latent's entries, and the
  loss is the difference of the first pixels: as a function of the latent it is the sum
  of the entries up to a constant, so its gradient is 1 in every entry, which is what
  \<open>backward\<close> returns.  Every noise sample \<open>randn_like\<close> is all ones.
\<close>

definition ex_noise :: "nat \<Rightarrow> nat \<Rightarrow> matrix" where
  "ex_noise n d = replicate (n div 2) (replicate d 1) @ replicate (n - n div 2) (replicate d (-1))"

definition ex_env :: env where
  "ex_env =
     \<lparr>g_style = map (\<lambda>z. [2 * (z ! 0), 0]),
      g_n_latent = 1,
      g_synth = (\<lambda>z. \<lparr>shape = [1, 3, 256, 256], pixels = replicate 196608 (sum_list (concat z))\<rparr>),
      downsample_256 =
        (\<lambda>x. if drop 2 (shape x) = [256, 256] then x
             else \<lparr>shape = take 2 (shape x) @ [256, 256],
                   pixels = replicate (prod_list (take 2 (shape x)) * 65536) 0\<rparr>),
      lpips = (\<lambda>a b. [pixels a ! 0 - pixels b ! 0]),
      mse_loss = (\<lambda>a b. (pixels a ! 0 - pixels b ! 0)\<^sup>2),
      randn = (\<lambda>k. ex_noise),
      randn_like = (\<lambda>k x. map (map (\<lambda>_. 1)) x),
      backward = (\<lambda>f x. map (map (\<lambda>_. 1)) x)\<rparr>"


definition ex_target :: image where
  "ex_target = \<lparr>shape = [3, 256, 256], pixels = replicate 196608 0\<rparr>"


text \<open>The Projector the constructor builds on the empty store with the default arguments.\<close>

definition ex_handle :: tensor where
  "ex_handle = \<lparr>storage = 0, requires_grad = True, is_leaf = True, is_float = True\<rparr>"

definition ex_proj :: projector where
  "ex_proj =
     \<lparr>num_steps = 1000, n_mean_latent = 10000, mse_strength = 0, initial_lr = 1/10, lr = 1/10,
      initial_noise_factor = 1/20, lr_rampdown_length = 1/4, lr_rampup_length = 1/20,
      noise_ramp_length = 3/4, regularize_noise_weight = 100000, verbose = True,
      latent_expr = None, target_images = None, loss = None, cur_step = None,
      latent_mean = [0, 0], latent_std = 2,
      latent_in = ex_handle,
      opt = \<lparr>opt_param = ex_handle, param_lr = 1/10, ostate = None\<rparr>,
      target_image = None, img_gen = None,
      mem = \<lparr>cells = (\<lambda>_. [])(0 := [[0, 0]]), next_free = 1\<rparr>,
      rng = 1, out = [InfoFinding 10000, InfoStd 2]\<rparr>"

text \<open>
  The states of \<^verbatim>\<open>run(ex_target, 2)\<close> on the fresh Projector: at the entry of the loop,
  after the step of index 0 and after the step of index 1.
\<close>

definition ex_batched :: image where
  "ex_batched = \<lparr>shape = [1, 3, 256, 256], pixels = replicate 196608 0\<rparr>"

definition ex_s0 :: projector where
  "ex_s0 = ex_proj\<lparr>num_steps := 2, target_image := Some ex_batched,
                    out := out ex_proj @ [PrintShape [1, 3, 256, 256], InfoRunning]\<rparr>"

definition ex_s1 :: projector where
  "ex_s1 = ex_s0\<lparr>cur_step := Some 0, latent_expr := Some [[1/10, 1/10]], rng := 2, lr := 0,
       opt := \<lparr>opt_param = ex_handle, param_lr = 0,
               ostate = Some \<lparr>step_count = 1, exp_avg = [[1/10, 1/10]],
                              exp_avg_sq = [[1/1000, 1/1000]]\<rparr>\<rparr>,
       img_gen := Some \<lparr>shape = [1, 3, 256, 256], pixels = replicate 196608 (1/5)\<rparr>,
       loss := Some (1/5)\<rparr>"

definition ex_s2 :: projector where
  "ex_s2 = ex_s1\<lparr>cur_step := Some 1, latent_expr := Some [[1/90, 1/90]], rng := 3, lr := 1/10,
       opt := \<lparr>opt_param = ex_handle, param_lr = 1/10,
               ostate = Some \<lparr>step_count = 2, exp_avg = [[19/100, 19/100]],
                              exp_avg_sq = [[1999/1000000, 1999/1000000]]\<rparr>\<rparr>,
       img_gen := Some \<lparr>shape = [1, 3, 256, 256], pixels = replicate 196608 (1/45)\<rparr>,
       loss := Some (1/45),
       mem := \<lparr>cells = (\<lambda>_. [])(0 := [[- (10000000/100000001), - (10000000/100000001)]]),
                next_free = 1\<rparr>,
       out := out ex_s0 @ [SetDescription (1/5) 0]\<rparr>"

definition ex_final :: projector where
  "ex_final = ex_s2\<lparr>out := out ex_s2 @ [SetDescription (1/45) (1/10)]\<rparr>"

text \<open>A target that is wider than 256 pixels but not higher.\<close>

definition ex_wide :: image where
  "ex_wide = \<lparr>shape = [3, 100, 512], pixels = replicate 153600 0\<rparr>"




section \<open>Auxiliary lemmas\<close>










lemmas ex_proj_eq = ex_proj_def ex_handle_def

lemmas step_unfold = step_def progress_def noise_strength_def update_lr_def Let_def deref_def
     forward_def total_loss_def adam_step_def mscale_def madd_def vadd_def mzip_with_def zeros_like_def

lemma ex_prepare:
  "prepare_input ex_env ex_target (ex_proj\<lparr>num_steps := 2\<rparr>) =
     Inr (ex_proj\<lparr>num_steps := 2, target_image := Some ex_batched,
                 out := out ex_proj @ [PrintShape [1, 3, 256, 256]]\<rparr>)"
  by (simp add: prepare_input_def ex_target_def unsqueeze0_def ex_batched_def Let_def ex_env_def)

lemma ex_step0: "step ex_env (ex_s0\<lparr>cur_step := Some 0\<rparr>) = Inr ex_s1"
  apply (simp add: ex_s1_def ex_s0_def ex_proj_eq step_unfold ex_batched_def)
  apply (simp add: ex_env_def)
  done

lemma ex_step1:
  "step ex_env (ex_s1\<lparr>out := out ex_s1 @ [SetDescription (1/5) 0], cur_step := Some 1\<rparr>) = Inr ex_s2"
  apply (simp add: ex_s2_def ex_s1_def ex_s0_def ex_proj_eq step_unfold ex_batched_def)
  apply (simp add: ex_env_def power2_eq_square)
  done

lemma ex_run:
  "run ex_env ex_target 2 ex_proj = Inr (ex_s2\<lparr>out := out ex_s2 @ [SetDescription (1/45) (1/10)]\<rparr>)"
proof -
  have r: "py_range 2 = [0, 1]" by (simp add: py_range_def upt_rec)
  have v: "verbose ex_proj" by (simp add: ex_proj_eq)
  have "run ex_env ex_target 2 ex_proj = run_steps ex_env [0, 1] ex_s0"
    by (simp add: run_def ex_prepare r v ex_s0_def)
  also have "\<dots> = run_steps ex_env [1] (ex_s1\<lparr>out := out ex_s1 @ [SetDescription (1/5) 0]\<rparr>)"
    by (simp add: ex_step0) (simp add: ex_s1_def)
  also have "\<dots> = Inr (ex_s2\<lparr>out := out ex_s2 @ [SetDescription (1/45) (1/10)]\<rparr>)"
    by (simp add: ex_step1) (simp add: ex_s2_def)
  finally show ?thesis .
qed

lemma ex_run_final: "run ex_env ex_target 2 ex_proj = Inr ex_final"
  by (simp add: ex_run ex_final_def)

lemma update_lr_eq:
  assumes "lr_rampdown_length s \<noteq> 0" "lr_rampup_length s \<noteq> 0"
  shows "update_lr t s =
     Inr (s\<lparr>lr := spec_effective_lr s t, opt := (opt s)\<lparr>param_lr := spec_effective_lr s t\<rparr>\<rparr>)"
  using assms by (simp add: update_lr_def Let_def spec_effective_lr_def mult.assoc)

lemma update_lr_InrD:
  "update_lr t s = Inr s' \<Longrightarrow> lr_rampdown_length s \<noteq> 0 \<and> lr_rampup_length s \<noteq> 0"
  by (auto simp: update_lr_def Let_def split: if_splits)

lemma noise_strength_eq:
  "noise_ramp_length s \<noteq> 0 \<Longrightarrow> noise_strength s t = Inr (spec_noise_magnitude s t)"
  by (simp add: noise_strength_def spec_noise_magnitude_def)

lemma progress_eq:
  "cur_step s = Some i \<Longrightarrow> num_steps s \<noteq> 0 \<Longrightarrow>
     progress s = Inr (real_of_int i / real_of_int (num_steps s))"
  by (simp add: progress_def)

lemma total_loss_cong:
  "mse_strength s' = mse_strength s \<Longrightarrow> total_loss e s' = total_loss e s"
  by (intro ext) (simp add: total_loss_def)

lemma step_eq:
  assumes "cur_step s = Some i" "num_steps s \<noteq> 0" "noise_ramp_length s \<noteq> 0"
    "lr_rampdown_length s \<noteq> 0" "lr_rampup_length s \<noteq> 0" "target_image s = Some tgt"
  shows "step e s = Inr (step_result e s (real_of_int i / real_of_int (num_steps s)) tgt)"
  using assms
  by (simp add: step_def progress_eq noise_strength_eq update_lr_eq Let_def deref_def
      step_result_def spec_effective_lr_def spec_noise_magnitude_def total_loss_def split_beta)

lemma step_InrD:
  assumes "step e s = Inr s'"
  shows "\<exists>i tgt. cur_step s = Some i \<and> num_steps s \<noteq> 0 \<and> noise_ramp_length s \<noteq> 0 \<and>
           lr_rampdown_length s \<noteq> 0 \<and> lr_rampup_length s \<noteq> 0 \<and> target_image s = Some tgt"
proof -
  obtain t where t: "progress s = Inr t"
    using assms by (cases "progress s") (simp_all add: step_def)
  obtain ns where ns: "noise_strength s t = Inr ns"
    using assms t by (cases "noise_strength s t") (simp_all add: step_def)
  have c: "cur_step s \<noteq> None \<and> num_steps s \<noteq> 0"
    using t by (auto simp: progress_def split: option.splits if_splits)
  have n: "noise_ramp_length s \<noteq> 0"
    using ns by (auto simp: noise_strength_def split: if_splits)
  let ?s1 = "s\<lparr>latent_expr := Some (madd (deref s (latent_in s)) (mscale (randn_like e (rng s) (deref s (latent_in s))) ns)), rng := Suc (rng s)\<rparr>"
  obtain s2 where s2: "update_lr t ?s1 = Inr s2"
    using assms t ns by (cases "update_lr t ?s1") (simp_all add: step_def Let_def)
  have r: "lr_rampdown_length s \<noteq> 0 \<and> lr_rampup_length s \<noteq> 0"
    using update_lr_InrD[OF s2] by simp
  have tg: "target_image s2 = target_image s"
    using s2 r by (auto simp: update_lr_eq)
  have "target_image s2 \<noteq> None"
    using assms t ns s2 by (cases "target_image s2") (simp_all add: step_def Let_def)
  with tg c n r show ?thesis by auto
qed

lemma same_setup_refl: "same_setup s s"
  by (simp add: same_setup_def)

lemma same_setup_trans: "same_setup a b \<Longrightarrow> same_setup b c \<Longrightarrow> same_setup a c"
  by (simp add: same_setup_def)

lemma same_setup_ready: "same_setup s s' \<Longrightarrow> ready s \<Longrightarrow> ready s'"
  by (simp add: same_setup_def ready_def)

lemma step_result_frame:
  "same_setup s (step_result e s t tgt) \<and> rng (step_result e s t tgt) = Suc (rng s) \<and>
   out (step_result e s t tgt) = out s \<and> cur_step (step_result e s t tgt) = cur_step s \<and>
   loss (step_result e s t tgt) \<noteq> None"
  by (simp add: step_result_def Let_def same_setup_def)

lemma step_frame:
  assumes "step e s = Inr s'"
  shows "same_setup s s' \<and> rng s' = Suc (rng s) \<and> out s' = out s \<and>
         cur_step s' = cur_step s \<and> loss s' \<noteq> None"
proof -
  obtain i tgt where h: "cur_step s = Some i" "num_steps s \<noteq> 0" "noise_ramp_length s \<noteq> 0"
    "lr_rampdown_length s \<noteq> 0" "lr_rampup_length s \<noteq> 0" "target_image s = Some tgt"
    using step_InrD[OF assms] by blast
  have "s' = step_result e s (real_of_int i / real_of_int (num_steps s)) tgt"
    using step_eq[OF h, of e] assms by simp
  then show ?thesis using step_result_frame by simp
qed

lemma step_total:
  assumes "ready s" "cur_step s = Some i"
  shows "\<exists>s'. step e s = Inr s'"
proof -
  obtain tgt where "target_image s = Some tgt" using assms(1) by (auto simp: ready_def)
  then show ?thesis using assms step_eq[of s i tgt e] by (simp add: ready_def)
qed

lemma run_steps_frame:
  "run_steps e js s = Inr s' \<Longrightarrow>
     same_setup s s' \<and> rng s' = rng s + length js \<and>
     length (filter is_description (out s')) = length (filter is_description (out s)) + length js \<and>
     (js \<noteq> [] \<longrightarrow> cur_step s' = Some (last js)) \<and> (js = [] \<longrightarrow> s' = s)"
proof (induction js arbitrary: s)
  case Nil
  then show ?case by (simp add: same_setup_refl)
next
  case (Cons i rest)
  let ?s = "s\<lparr>cur_step := Some i\<rparr>"
  from Cons.prems obtain s1 where s1: "step e ?s = Inr s1"
    by (cases "step e ?s") simp_all
  from Cons.prems s1 obtain l where l: "loss s1 = Some l"
    by (cases "loss s1") simp_all
  let ?s1 = "s1\<lparr>out := out s1 @ [SetDescription l (lr s1)]\<rparr>"
  from Cons.prems s1 l have r: "run_steps e rest ?s1 = Inr s'" by simp
  note f = step_frame[OF s1]
  note ih = Cons.IH[OF r]
  have a: "same_setup s ?s1" using f by (simp add: same_setup_def)
  have "same_setup s s'" using a ih same_setup_trans by blast
  moreover have "rng s' = rng s + length (i # rest)" using f ih by simp
  moreover have "length (filter is_description (out s')) =
      length (filter is_description (out s)) + length (i # rest)" using f ih by simp
  moreover have "cur_step s' = Some (last (i # rest))"
  proof (cases "rest = []")
    case True
    then have "s' = ?s1" using ih by simp
    then show ?thesis using f True by simp
  next
    case False
    then show ?thesis using ih by simp
  qed
  ultimately show ?case by simp
qed

lemma run_steps_total:
  "ready s \<Longrightarrow> \<exists>s'. run_steps e js s = Inr s'"
proof (induction js arbitrary: s)
  case Nil
  then show ?case by simp
next
  case (Cons i rest)
  let ?s = "s\<lparr>cur_step := Some i\<rparr>"
  have rs: "ready ?s" using Cons.prems by (simp add: ready_def)
  then obtain s1 where s1: "step e ?s = Inr s1" using step_total[of ?s i e] by auto
  note f = step_frame[OF s1]
  then obtain l where l: "loss s1 = Some l" by auto
  let ?s1 = "s1\<lparr>out := out s1 @ [SetDescription l (lr s1)]\<rparr>"
  have "same_setup ?s ?s1" using f by (simp add: same_setup_def)
  then have "ready ?s1" using rs same_setup_ready by blast
  then obtain s' where "run_steps e rest ?s1 = Inr s'" using Cons.IH by blast
  then show ?case using s1 l by simp
qed

lemma step_calls_trace:
  "ready s \<Longrightarrow>
     length (step_calls e js s) = length js \<and>
     (\<forall>k<length js. cur_step (step_calls e js s ! k) = Some (js ! k) \<and>
                     num_steps (step_calls e js s ! k) = num_steps s)"
proof (induction js arbitrary: s)
  case Nil
  then show ?case by simp
next
  case (Cons i rest)
  let ?s = "s\<lparr>cur_step := Some i\<rparr>"
  have rs: "ready ?s" using Cons.prems by (simp add: ready_def)
  then obtain s1 where s1: "step e ?s = Inr s1" using step_total[of ?s i e] by auto
  note f = step_frame[OF s1]
  then obtain l where l: "loss s1 = Some l" by auto
  let ?s1 = "s1\<lparr>out := out s1 @ [SetDescription l (lr s1)]\<rparr>"
  have ss: "same_setup ?s ?s1" using f by (simp add: same_setup_def)
  then have "ready ?s1" using rs same_setup_ready by blast
  note ih = Cons.IH[OF this]
  have c: "step_calls e (i # rest) s = ?s # step_calls e rest ?s1" using s1 l by simp
  have n: "num_steps ?s1 = num_steps s" using ss by (simp add: same_setup_def)
  show ?case
  proof (intro conjI allI impI)
    show "length (step_calls e (i # rest) s) = length (i # rest)" using c ih by simp
  next
    fix k assume "k < length (i # rest)"
    then show "cur_step (step_calls e (i # rest) s ! k) = Some ((i # rest) ! k)"
      using c ih by (cases k) simp_all
  next
    fix k assume "k < length (i # rest)"
    then show "num_steps (step_calls e (i # rest) s ! k) = num_steps s"
      using c ih n by (cases k) simp_all
  qed
qed

lemma prepare_input_eq:
  assumes "3 \<le> length (shape target)"
  shows "prepare_input e target s =
           Inr (s\<lparr>target_image := Some (prepared e target),
                   out := out s @ [PrintShape (shape (prepared e target))]\<rparr>)"
  using assms by (simp add: prepare_input_def Let_def unsqueeze0_def prepared_def batched_def)

lemma prepare_input_InrD:
  assumes "prepare_input e target s = Inr s'"
  shows "3 \<le> length (shape target)"
proof (rule ccontr)
  assume "\<not> 3 \<le> length (shape target)"
  then have "prepare_input e target s = Inl IndexError"
    by (simp add: prepare_input_def Let_def)
  with assms show False by simp
qed

lemma run_eq:
  assumes "3 \<le> length (shape target)"
  shows "run e target n s = run_steps e (py_range n) (loop_entry e s n target)"
  using prepare_input_eq[OF assms, of e "s\<lparr>num_steps := n\<rparr>"]
  by (simp add: run_def loop_entry_def)

lemma run_InrD:
  assumes "run e target n s = Inr s'"
  shows "3 \<le> length (shape target)"
proof -
  obtain s1 where "prepare_input e target (s\<lparr>num_steps := n\<rparr>) = Inr s1"
    using assms by (cases "prepare_input e target (s\<lparr>num_steps := n\<rparr>)") (simp_all add: run_def)
  then show ?thesis by (rule prepare_input_InrD)
qed

lemma loop_entry_simps:
  "num_steps (loop_entry e s n tg) = n"
  "noise_ramp_length (loop_entry e s n tg) = noise_ramp_length s"
  "lr_rampdown_length (loop_entry e s n tg) = lr_rampdown_length s"
  "lr_rampup_length (loop_entry e s n tg) = lr_rampup_length s"
  "target_image (loop_entry e s n tg) = Some (prepared e tg)"
  "rng (loop_entry e s n tg) = rng s"
  "mem (loop_entry e s n tg) = mem s"
  "opt (loop_entry e s n tg) = opt s"
  "latent_in (loop_entry e s n tg) = latent_in s"
  "latent_mean (loop_entry e s n tg) = latent_mean s"
  "latent_std (loop_entry e s n tg) = latent_std s"
  "n_mean_latent (loop_entry e s n tg) = n_mean_latent s"
  "filter is_description (out (loop_entry e s n tg)) = filter is_description (out s)"
  by (simp_all add: loop_entry_def)

lemma py_range_props:
  "length (py_range n) = nat n"
  "k < nat n \<Longrightarrow> py_range n ! k = int k"
  "1 \<le> n \<Longrightarrow> last (py_range n) = n - 1"
  "1 \<le> n \<Longrightarrow> py_range n \<noteq> []"
proof -
  show "length (py_range n) = nat n" by (simp add: py_range_def)
  show "k < nat n \<Longrightarrow> py_range n ! k = int k" by (simp add: py_range_def)
  assume n: "1 \<le> n"
  then have ne: "[0..<nat n] \<noteq> []" by simp
  show "py_range n \<noteq> []" using ne by (simp add: py_range_def)
  have "last (py_range n) = int (last [0..<nat n])"
    unfolding py_range_def using ne by (rule last_map)
  also have "\<dots> = int (nat n - 1)" using ne by (simp add: last_upt)
  also have "\<dots> = n - 1" using n by simp
  finally show "last (py_range n) = n - 1" .
qed

lemma lr_continuous_at_end:
  assumes "rd \<noteq> 0" "ru \<noteq> 0"
  shows "isCont (\<lambda>t::real. a * (0.5 - 0.5 * cos (min 1 ((1 - t) / rd) * pi)) * min 1 (t / ru)) 1"
  using assms by (intro continuous_intros) simp_all

lemma spec_effective_lr_limit:
  assumes "lr_rampdown_length s \<noteq> 0" "lr_rampup_length s \<noteq> 0" "0 < eps"
  shows "\<exists>d>0. \<forall>t. \<bar>t - 1\<bar> < d \<longrightarrow> \<bar>spec_effective_lr s t\<bar> < eps"
proof -
  let ?f = "spec_effective_lr s"
  have "isCont ?f 1"
    unfolding spec_effective_lr_def using assms(1,2) by (intro continuous_intros) simp_all
  then have "?f \<midarrow>1\<rightarrow> ?f 1" by (simp add: isCont_def)
  moreover have z: "?f 1 = 0" by (simp add: spec_effective_lr_def)
  ultimately have "?f \<midarrow>1\<rightarrow> 0" by simp
  then obtain d where d: "d > 0" "\<forall>x. x \<noteq> 1 \<and> \<bar>x - 1\<bar> < d \<longrightarrow> \<bar>?f x - 0\<bar> < eps"
    using \<open>0 < eps\<close> unfolding LIM_def dist_real_def by metis
  have "\<bar>?f t\<bar> < eps" if "\<bar>t - 1\<bar> < d" for t
  proof (cases "t = 1")
    case True
    then show ?thesis using z \<open>0 < eps\<close> by simp
  next
    case False
    then show ?thesis using d(2) that by simp
  qed
  then show ?thesis using d(1) by blast
qed

lemma spec_effective_lr_start:
  "lr_rampup_length s \<noteq> 0 \<Longrightarrow> spec_effective_lr s 0 = 0"
  by (simp add: spec_effective_lr_def)

lemma spec_effective_lr_plateau:
  assumes "0 < lr_rampdown_length s" "0 < lr_rampup_length s"
    "lr_rampup_length s \<le> t" "t \<le> 1 - lr_rampdown_length s"
  shows "spec_effective_lr s t = initial_lr s"
proof -
  have "1 \<le> (1 - t) / lr_rampdown_length s" using assms by (simp add: le_divide_eq)
  then have a: "min 1 ((1 - t) / lr_rampdown_length s) = 1" by simp
  have "1 \<le> t / lr_rampup_length s" using assms by (simp add: le_divide_eq)
  then have b: "min 1 (t / lr_rampup_length s) = 1" by simp
  show ?thesis by (simp add: spec_effective_lr_def a b)
qed

lemma step_lr:
  assumes "step e s = Inr s'"
  shows "\<exists>t. progress s = Inr t \<and> lr s' = spec_effective_lr s t \<and>
             param_lr (opt s') = spec_effective_lr s t"
proof -
  obtain i tgt where h: "cur_step s = Some i" "num_steps s \<noteq> 0" "noise_ramp_length s \<noteq> 0"
    "lr_rampdown_length s \<noteq> 0" "lr_rampup_length s \<noteq> 0" "target_image s = Some tgt"
    using step_InrD[OF assms] by blast
  have "s' = step_result e s (real_of_int i / real_of_int (num_steps s)) tgt"
    using step_eq[OF h, of e] assms by simp
  then show ?thesis using progress_eq[OF h(1,2)] by (simp add: step_result_def Let_def)
qed

lemma step_latent_expr:
  assumes "step e s = Inr s'"
  shows "\<exists>t. progress s = Inr t \<and>
             latent_expr s' =
               Some (madd (deref s (latent_in s))
                       (mscale (randn_like e (rng s) (deref s (latent_in s)))
                          (spec_noise_magnitude s t)))"
proof -
  obtain i tgt where h: "cur_step s = Some i" "num_steps s \<noteq> 0" "noise_ramp_length s \<noteq> 0"
    "lr_rampdown_length s \<noteq> 0" "lr_rampup_length s \<noteq> 0" "target_image s = Some tgt"
    using step_InrD[OF assms] by blast
  have "s' = step_result e s (real_of_int i / real_of_int (num_steps s)) tgt"
    using step_eq[OF h, of e] assms by simp
  then show ?thesis using progress_eq[OF h(1,2)] by (simp add: step_result_def Let_def)
qed

lemma spec_noise_magnitude_mono:
  assumes "0 < noise_ramp_length s" "0 \<le> latent_std s" "0 \<le> initial_noise_factor s" "u \<le> v"
  shows "spec_noise_magnitude s v \<le> spec_noise_magnitude s u"
proof -
  have "u / noise_ramp_length s \<le> v / noise_ramp_length s"
    using assms(1,4) by (simp add: divide_right_mono)
  then have "max 0 (1 - v / noise_ramp_length s) \<le> max 0 (1 - u / noise_ramp_length s)"
    by simp
  moreover have "0 \<le> max 0 (1 - v / noise_ramp_length s)" by simp
  ultimately have "(max 0 (1 - v / noise_ramp_length s))\<^sup>2 \<le> (max 0 (1 - u / noise_ramp_length s))\<^sup>2"
    by (rule power_mono)
  moreover have "0 \<le> latent_std s * initial_noise_factor s" using assms(2,3) by simp
  ultimately show ?thesis
    unfolding spec_noise_magnitude_def by (rule mult_left_mono)
qed

lemma spec_noise_magnitude_zero:
  assumes "0 < noise_ramp_length s" "noise_ramp_length s \<le> u"
  shows "spec_noise_magnitude s u = 0"
proof -
  have "1 \<le> u / noise_ramp_length s" using assms by (simp add: le_divide_eq)
  then have "max 0 (1 - u / noise_ramp_length s) = 0" by simp
  then show ?thesis by (simp add: spec_noise_magnitude_def)
qed







lemma run_target_image:
  assumes "run e target n s = Inr s'"
  shows "target_image s' = Some (prepared e target)"
proof -
  note d = run_InrD[OF assms]
  have "run_steps e (py_range n) (loop_entry e s n target) = Inr s'"
    using run_eq(1)[OF d, of e n s] assms by simp
  from run_steps_frame[OF this] show ?thesis
    by (simp add: same_setup_def loop_entry_simps)
qed

lemma prepared_3d:
  "shape target = [c, h, w] \<Longrightarrow>
     prepared e target =
       (if 256 < h then downsample_256 e (unsqueeze0 target) else unsqueeze0 target)"
  by (simp add: prepared_def batched_def unsqueeze0_def)

lemma prepared_4d:
  "shape target = [b, c, h, w] \<Longrightarrow>
     prepared e target = (if 256 < h then downsample_256 e target else target)"
  by (simp add: prepared_def batched_def)

lemma run_frame:
  assumes "run e target n s = Inr s'"
  shows "run e target n s = run_steps e (py_range n) (loop_entry e s n target)"
    and "3 \<le> length (shape target)"
    and "latent_mean s' = latent_mean s" and "latent_std s' = latent_std s"
    and "n_mean_latent s' = n_mean_latent s" and "latent_in s' = latent_in s"
    and "opt_param (opt s') = opt_param (opt s)"
    and "n \<le> 0 \<Longrightarrow> s' = loop_entry e s n target"
proof -
  note d = run_InrD[OF assms]
  show r: "run e target n s = run_steps e (py_range n) (loop_entry e s n target)"
    using run_eq[OF d, of e n s] .
  show "3 \<le> length (shape target)" by (rule d)
  have "run_steps e (py_range n) (loop_entry e s n target) = Inr s'" using r assms by simp
  note f = run_steps_frame[OF this]
  show "latent_mean s' = latent_mean s" "latent_std s' = latent_std s"
    "n_mean_latent s' = n_mean_latent s" "latent_in s' = latent_in s"
    "opt_param (opt s') = opt_param (opt s)"
    using f by (simp_all add: same_setup_def loop_entry_simps)
  show "s' = loop_entry e s n target" if "n \<le> 0"
    using f that by (simp add: py_range_def)
qed

lemma step_InrE:
  assumes "step e s = Inr s'"
  obtains t tgt where "progress s = Inr t" "noise_strength s t = Inr (spec_noise_magnitude s t)"
    "target_image s = Some tgt" "s' = step_result e s t tgt"
proof -
  obtain i tgt where h: "cur_step s = Some i" "num_steps s \<noteq> 0" "noise_ramp_length s \<noteq> 0"
    "lr_rampdown_length s \<noteq> 0" "lr_rampup_length s \<noteq> 0" "target_image s = Some tgt"
    using step_InrD[OF assms] by blast
  have "s' = step_result e s (real_of_int i / real_of_int (num_steps s)) tgt"
    using step_eq[OF h, of e] assms by simp
  then show ?thesis
    using that[of "real_of_int i / real_of_int (num_steps s)" tgt]
      progress_eq[OF h(1,2)] noise_strength_eq[OF h(3)] h(6) by simp
qed

lemma step_calls_Cons:
  assumes "step e (s\<lparr>cur_step := Some i\<rparr>) = Inr r" and "loss r = Some l"
  shows "step_calls e (i # rest) s =
           s\<lparr>cur_step := Some i\<rparr>
             # step_calls e rest (r\<lparr>out := out r @ [SetDescription l (lr r)]\<rparr>)"
    and "run_steps e (i # rest) s =
           run_steps e rest (r\<lparr>out := out r @ [SetDescription l (lr r)]\<rparr>)"
  using assms by simp_all

lemma step_calls_hd:
  "js \<noteq> [] \<Longrightarrow> step_calls e js s ! 0 = s\<lparr>cur_step := Some (js ! 0)\<rparr>"
  by (cases js) simp_all

lemma run_steps_chain:
  assumes "ready s"
  shows "\<exists>s'. run_steps e js s = Inr s' \<and>
           length (step_calls e js s) = length js \<and>
           (\<forall>k. Suc k < length js \<longrightarrow>
              (\<exists>r l. step e (step_calls e js s ! k) = Inr r \<and> loss r = Some l \<and>
                 step_calls e js s ! Suc k =
                   r\<lparr>out := out r @ [SetDescription l (lr r)], cur_step := Some (js ! Suc k)\<rparr>)) \<and>
           (js \<noteq> [] \<longrightarrow>
              (\<exists>r l. step e (step_calls e js s ! (length js - 1)) = Inr r \<and> loss r = Some l \<and>
                 s' = r\<lparr>out := out r @ [SetDescription l (lr r)]\<rparr>))"
  using assms
proof (induction js arbitrary: s)
  case Nil
  then show ?case by simp
next
  case (Cons i rest)
  let ?s = "s\<lparr>cur_step := Some i\<rparr>"
  have rs: "ready ?s" using Cons.prems by (simp add: ready_def)
  then obtain r where r: "step e ?s = Inr r" using step_total[of ?s i e] by auto
  note f = step_frame[OF r]
  then obtain l where l: "loss r = Some l" by auto
  let ?r = "r\<lparr>out := out r @ [SetDescription l (lr r)]\<rparr>"
  have "same_setup ?s ?r" using f by (simp add: same_setup_def)
  then have rr: "ready ?r" using rs same_setup_ready by blast
  note c = step_calls_Cons[OF r l, of rest]
  from Cons.IH[OF rr] obtain s' where ih:
    "run_steps e rest ?r = Inr s'"
    "length (step_calls e rest ?r) = length rest"
    "\<forall>k. Suc k < length rest \<longrightarrow>
        (\<exists>r' l'. step e (step_calls e rest ?r ! k) = Inr r' \<and> loss r' = Some l' \<and>
           step_calls e rest ?r ! Suc k =
             r'\<lparr>out := out r' @ [SetDescription l' (lr r')], cur_step := Some (rest ! Suc k)\<rparr>)"
    "rest \<noteq> [] \<longrightarrow>
        (\<exists>r' l'. step e (step_calls e rest ?r ! (length rest - 1)) = Inr r' \<and> loss r' = Some l' \<and>
           s' = r'\<lparr>out := out r' @ [SetDescription l' (lr r')]\<rparr>)"
    by blast
  have A: "run_steps e (i # rest) s = Inr s'" using c(2) ih(1) by simp
  have B: "length (step_calls e (i # rest) s) = length (i # rest)" using c(1) ih(2) by simp
  have C: "\<exists>r' l'. step e (step_calls e (i # rest) s ! k) = Inr r' \<and> loss r' = Some l' \<and>
                 step_calls e (i # rest) s ! Suc k =
                   r'\<lparr>out := out r' @ [SetDescription l' (lr r')],
                      cur_step := Some ((i # rest) ! Suc k)\<rparr>"
    if k: "Suc k < length (i # rest)" for k
  proof (cases k)
    case 0
    then have ne: "rest \<noteq> []" using k by auto
    have h1: "step_calls e (i # rest) s ! Suc 0 = ?r\<lparr>cur_step := Some (rest ! 0)\<rparr>"
      using c(1) step_calls_hd[OF ne, of e ?r] by simp
    have h2: "?r\<lparr>cur_step := Some (rest ! 0)\<rparr> =
        r\<lparr>out := out r @ [SetDescription l (lr r)], cur_step := Some ((i # rest) ! Suc 0)\<rparr>"
      by simp
    have h3: "step_calls e (i # rest) s ! 0 = ?s" using c(1) by simp
    have g1: "step e (step_calls e (i # rest) s ! 0) = Inr r" unfolding h3 by (rule r)
    have g2: "step_calls e (i # rest) s ! Suc 0 =
        r\<lparr>out := out r @ [SetDescription l (lr r)], cur_step := Some ((i # rest) ! Suc 0)\<rparr>"
      using h1 h2 by (rule trans)
    show ?thesis unfolding 0 using g1 l g2 by blast
  next
    case (Suc k')
    then have "Suc k' < length rest" using k by simp
    with ih(3) obtain r' l' where h:
      "step e (step_calls e rest ?r ! k') = Inr r'" "loss r' = Some l'"
      "step_calls e rest ?r ! Suc k' =
         r'\<lparr>out := out r' @ [SetDescription l' (lr r')], cur_step := Some (rest ! Suc k')\<rparr>"
      by blast
    have i1: "step_calls e (i # rest) s ! Suc k' = step_calls e rest ?r ! k'"
      and i2: "step_calls e (i # rest) s ! Suc (Suc k') = step_calls e rest ?r ! Suc k'"
      and i3: "(i # rest) ! Suc (Suc k') = rest ! Suc k'"
      using c(1) by simp_all
    show ?thesis unfolding Suc i1 i2 i3 using h by blast
  qed
  have D: "\<exists>r' l'. step e (step_calls e (i # rest) s ! (length (i # rest) - 1)) = Inr r' \<and>
             loss r' = Some l' \<and> s' = r'\<lparr>out := out r' @ [SetDescription l' (lr r')]\<rparr>"
  proof (cases "rest = []")
    case True
    then have e1: "s' = ?r" using ih(1) by simp
    have e2: "step_calls e (i # rest) s ! (length (i # rest) - 1) = ?s"
      using c(1) True by simp
    have e3: "step e (step_calls e (i # rest) s ! (length (i # rest) - 1)) = Inr r"
      unfolding e2 by (rule r)
    show ?thesis using e3 l e1 by blast
  next
    case False
    then obtain r' l' where h:
      "step e (step_calls e rest ?r ! (length rest - 1)) = Inr r'" "loss r' = Some l'"
      "s' = r'\<lparr>out := out r' @ [SetDescription l' (lr r')]\<rparr>"
      using ih(4) by blast
    have e4: "step_calls e (i # rest) s ! (length (i # rest) - 1) =
        step_calls e rest ?r ! (length rest - 1)"
      using c(1) False by (cases rest) simp_all
    show ?thesis unfolding e4 using h by blast
  qed
  have C': "\<forall>k. Suc k < length (i # rest) \<longrightarrow>
      (\<exists>r' l'. step e (step_calls e (i # rest) s ! k) = Inr r' \<and> loss r' = Some l' \<and>
                 step_calls e (i # rest) s ! Suc k =
                   r'\<lparr>out := out r' @ [SetDescription l' (lr r')],
                      cur_step := Some ((i # rest) ! Suc k)\<rparr>)"
    using C by blast
  have D': "i # rest \<noteq> [] \<longrightarrow>
      (\<exists>r' l'. step e (step_calls e (i # rest) s ! (length (i # rest) - 1)) = Inr r' \<and>
             loss r' = Some l' \<and> s' = r'\<lparr>out := out r' @ [SetDescription l' (lr r')]\<rparr>)"
    using D by blast
  show ?case by (rule exI[of _ s']) (intro conjI A B C' D')
qed

lemma loop_entry_prepare:
  assumes "3 \<le> length (shape target)"
  shows "\<exists>s0. prepare_input e target (s\<lparr>num_steps := n\<rparr>) = Inr s0 \<and>
           loop_entry e s n target =
             s0\<lparr>out := out s0 @ (if verbose s0 then [InfoRunning] else [])\<rparr>"
  using prepare_input_eq[OF assms, of e "s\<lparr>num_steps := n\<rparr>"]
  by (simp add: loop_entry_def)

lemma run_steps_Inr_ready:
  assumes "run_steps e js s = Inr s'" and "js \<noteq> []"
  shows "ready s"
proof -
  obtain i rest where js: "js = i # rest" using assms(2) by (cases js) auto
  let ?s = "s\<lparr>cur_step := Some i\<rparr>"
  obtain r where "step e ?s = Inr r"
    using assms(1) unfolding js by (cases "step e ?s") simp_all
  from step_InrD[OF this] show ?thesis by (auto simp: ready_def)
qed

lemma step_adam_update:
  assumes "step e x = Inr r" and "opt_param (opt x) = latent_in x"
  shows "\<exists>g. deref r (latent_in r) =
               fst (adam_step (ostate (opt x)) (lr r) g (deref x (latent_in x))) \<and>
             ostate (opt r) =
               snd (adam_step (ostate (opt x)) (lr r) g (deref x (latent_in x)))"
proof -
  from assms(1) obtain t tgt where h: "r = step_result e x t tgt"
    by (rule step_InrE)
  show ?thesis
    unfolding h using assms(2)
    by (intro exI[of _ "backward e (\<lambda>y. total_loss e x tgt (forward e (madd y
          (mscale (randn_like e (rng x) (deref x (latent_in x))) (spec_noise_magnitude x t)))))
          (deref x (latent_in x))"])
      (simp add: step_result_def Let_def deref_def)
qed

section \<open>The claims\<close>

text \<open>
  Claim C1.  A call \<^verbatim>\<open>run(target, T)\<close> with \<open>T \<ge> 1\<close>, on a target of at least three
  dimensions and with nonzero ramp lengths, returns without an error, and its result is
  that of exactly \<open>T\<close> invocations of \<^verbatim>\<open>step\<close>: there are states \<open>cs ! 0, ..., cs ! (T - 1)\<close>
  such that \<open>cs ! 0\<close> is the prepared state with step index 0, each \<open>cs ! (k + 1)\<close> is what
  \<^verbatim>\<open>step\<close> returns on \<open>cs ! k\<close> with the progress description added and the step index set
  to \<open>k + 1\<close>, and the state \<^verbatim>\<open>run\<close> leaves is what \<^verbatim>\<open>step\<close> returns on \<open>cs ! (T - 1)\<close> with its
  description added.  The \<open>k\<close>-th invocation runs with step index \<open>k\<close> and computes the
  progress fraction \<open>k / T\<close>, which lies in \<open>[0, 1)\<close>; the random generator has advanced by
  \<open>T\<close> draws and \<open>T\<close> descriptions were set.  For \<open>T = 1\<close> the only invocation computes
  \<open>t = 0\<close> and no division by zero occurs.
\<close>

theorem run_executes_num_steps_updates:
  assumes "1 \<le> T" and "3 \<le> length (shape target)"
    and "noise_ramp_length s \<noteq> 0" and "lr_rampdown_length s \<noteq> 0" and "lr_rampup_length s \<noteq> 0"
  shows "\<exists>s0 cs s'.
           prepare_input e target (s\<lparr>num_steps := T\<rparr>) = Inr s0 \<and>
           run e target T s = Inr s' \<and>
           length cs = nat T \<and>
           cs ! 0 = s0\<lparr>out := out s0 @ (if verbose s0 then [InfoRunning] else []),
                       cur_step := Some 0\<rparr> \<and>
           (\<forall>k. Suc k < nat T \<longrightarrow>
              (\<exists>r l. step e (cs ! k) = Inr r \<and> loss r = Some l \<and>
                 cs ! Suc k = r\<lparr>out := out r @ [SetDescription l (lr r)],
                               cur_step := Some (int (Suc k))\<rparr>)) \<and>
           (\<exists>r l. step e (cs ! (nat T - 1)) = Inr r \<and> loss r = Some l \<and>
              s' = r\<lparr>out := out r @ [SetDescription l (lr r)]\<rparr>) \<and>
           (\<forall>k<nat T. cur_step (cs ! k) = Some (int k) \<and> num_steps (cs ! k) = T \<and>
                       progress (cs ! k) = Inr (real k / real_of_int T) \<and>
                       0 \<le> real k / real_of_int T \<and> real k / real_of_int T < 1) \<and>
           (T = 1 \<longrightarrow> progress (cs ! 0) = Inr 0) \<and>
           rng s' = rng s + nat T \<and>
           length (filter is_description (out s')) =
             length (filter is_description (out s)) + nat T \<and>
           cur_step s' = Some (T - 1)"
proof -
  let ?s0 = "loop_entry e s T target"
  let ?cs = "step_calls e (py_range T) ?s0"
  note run = run_eq(1)[OF assms(2), of e T s]
  obtain s0 where s0: "prepare_input e target (s\<lparr>num_steps := T\<rparr>) = Inr s0"
    and le: "?s0 = s0\<lparr>out := out s0 @ (if verbose s0 then [InfoRunning] else [])\<rparr>"
    using loop_entry_prepare[OF assms(2), where e=e and s=s and n=T] by blast
  have rdy: "ready ?s0" using assms by (simp add: ready_def loop_entry_simps)
  have T: "0 < nat T" "py_range T \<noteq> []" using assms(1) by (simp_all add: py_range_props)
  from run_steps_chain[OF rdy, of e "py_range T"] obtain s' where ch:
    "run_steps e (py_range T) ?s0 = Inr s'"
    "length ?cs = length (py_range T)"
    "\<forall>k. Suc k < length (py_range T) \<longrightarrow>
        (\<exists>r l. step e (?cs ! k) = Inr r \<and> loss r = Some l \<and>
           ?cs ! Suc k = r\<lparr>out := out r @ [SetDescription l (lr r)],
                           cur_step := Some (py_range T ! Suc k)\<rparr>)"
    "py_range T \<noteq> [] \<longrightarrow>
        (\<exists>r l. step e (?cs ! (length (py_range T) - 1)) = Inr r \<and> loss r = Some l \<and>
           s' = r\<lparr>out := out r @ [SetDescription l (lr r)]\<rparr>)"
    by blast
  note f = run_steps_frame[OF ch(1)]
  note tr = step_calls_trace[OF rdy, of e "py_range T"]
  have 1: "run e target T s = Inr s'" using run ch(1) by simp
  have 2: "length ?cs = nat T" using ch(2) by (simp add: py_range_props)
  have "?cs ! 0 = ?s0\<lparr>cur_step := Some (py_range T ! 0)\<rparr>"
    using step_calls_hd[OF T(2)] .
  also have "\<dots> = ?s0\<lparr>cur_step := Some 0\<rparr>" using T(1) by (simp add: py_range_props)
  also have "\<dots> = s0\<lparr>out := out s0 @ (if verbose s0 then [InfoRunning] else []),
                       cur_step := Some 0\<rparr>"
    unfolding le ..
  finally have 3: "?cs ! 0 = s0\<lparr>out := out s0 @ (if verbose s0 then [InfoRunning] else []),
                       cur_step := Some 0\<rparr>" .
  have 4: "\<forall>k. Suc k < nat T \<longrightarrow>
              (\<exists>r l. step e (?cs ! k) = Inr r \<and> loss r = Some l \<and>
                 ?cs ! Suc k = r\<lparr>out := out r @ [SetDescription l (lr r)],
                               cur_step := Some (int (Suc k))\<rparr>)"
  proof (intro allI impI)
    fix k assume k: "Suc k < nat T"
    then have "Suc k < length (py_range T)" by (simp add: py_range_props)
    with ch(3) obtain r l where h: "step e (?cs ! k) = Inr r" "loss r = Some l"
      "?cs ! Suc k = r\<lparr>out := out r @ [SetDescription l (lr r)],
                           cur_step := Some (py_range T ! Suc k)\<rparr>"
      by blast
    have "py_range T ! Suc k = int (Suc k)" using k by (rule py_range_props(2))
    then have "?cs ! Suc k = r\<lparr>out := out r @ [SetDescription l (lr r)],
                           cur_step := Some (int (Suc k))\<rparr>"
      using h(3) by simp
    with h(1,2) show "\<exists>r l. step e (?cs ! k) = Inr r \<and> loss r = Some l \<and>
                 ?cs ! Suc k = r\<lparr>out := out r @ [SetDescription l (lr r)],
                               cur_step := Some (int (Suc k))\<rparr>"
      by blast
  qed
  have 5: "\<exists>r l. step e (?cs ! (nat T - 1)) = Inr r \<and> loss r = Some l \<and>
              s' = r\<lparr>out := out r @ [SetDescription l (lr r)]\<rparr>"
    using ch(4) T(2) by (simp add: py_range_props)
  have each: "cur_step (?cs ! k) = Some (int k) \<and> num_steps (?cs ! k) = T \<and>
              progress (?cs ! k) = Inr (real k / real_of_int T) \<and>
              0 \<le> real k / real_of_int T \<and> real k / real_of_int T < 1" if k: "k < nat T" for k
  proof -
    have c: "cur_step (?cs ! k) = Some (int k)"
      and n: "num_steps (?cs ! k) = T"
      using tr k by (simp_all add: py_range_props loop_entry_simps)
    have "progress (?cs ! k) = Inr (real_of_int (int k) / real_of_int T)"
      using progress_eq[OF c] n assms(1) by simp
    moreover have "real k < real_of_int T" using k by linarith
    ultimately show ?thesis using c n assms(1) by simp
  qed
  then have 6: "\<forall>k<nat T. cur_step (?cs ! k) = Some (int k) \<and> num_steps (?cs ! k) = T \<and>
                       progress (?cs ! k) = Inr (real k / real_of_int T) \<and>
                       0 \<le> real k / real_of_int T \<and> real k / real_of_int T < 1"
    by blast
  have 7: "T = 1 \<longrightarrow> progress (?cs ! 0) = Inr 0"
  proof
    assume t1: "T = 1"
    have "progress (?cs ! 0) = Inr (real 0 / real_of_int T)" using each[OF T(1)] by blast
    then show "progress (?cs ! 0) = Inr 0" by simp
  qed
  have 8: "rng s' = rng s + nat T"
    using f by (simp add: py_range_props loop_entry_simps)
  have 9: "length (filter is_description (out s')) =
      length (filter is_description (out s)) + nat T"
    using f by (simp add: py_range_props loop_entry_simps)
  have 10: "cur_step s' = Some (T - 1)"
    using f assms(1) by (simp add: py_range_props)
  show ?thesis
    by (rule exI[of _ s0], rule exI[of _ ?cs], rule exI[of _ s'])
      (intro conjI s0 1 2 3 4 5 6 7 8 9 10)
qed

theorem run_executes_num_steps_updates_witness:
  "(1::int) \<le> 2 \<and> 3 \<le> length (shape ex_target) \<and>
   noise_ramp_length ex_proj \<noteq> 0 \<and> lr_rampdown_length ex_proj \<noteq> 0 \<and>
   lr_rampup_length ex_proj \<noteq> 0 \<and>
   (\<exists>cs s'. run ex_env ex_target 2 ex_proj = Inr s' \<and> length cs = 2 \<and>
      (\<exists>r l. step ex_env (cs ! 0) = Inr r \<and> loss r = Some l \<and>
         cs ! 1 = r\<lparr>out := out r @ [SetDescription l (lr r)], cur_step := Some 1\<rparr>) \<and>
      (\<exists>r l. step ex_env (cs ! 1) = Inr r \<and> loss r = Some l \<and>
         s' = r\<lparr>out := out r @ [SetDescription l (lr r)]\<rparr>) \<and>
      cur_step (cs ! 0) = Some 0 \<and> cur_step (cs ! 1) = Some 1 \<and>
      progress (cs ! 0) = Inr 0 \<and> progress (cs ! 1) = Inr (1 / 2) \<and>
      rng s' = 3 \<and> cur_step s' = Some 1 \<and>
      length (filter is_description (out s')) = 2) \<and>
   (\<exists>cs s'. run ex_env ex_target 1 ex_proj = Inr s' \<and> length cs = 1 \<and>
      (\<exists>r l. step ex_env (cs ! 0) = Inr r \<and> loss r = Some l \<and>
         s' = r\<lparr>out := out r @ [SetDescription l (lr r)]\<rparr>) \<and>
      progress (cs ! 0) = Inr 0)"
proof -
  have h: "3 \<le> length (shape ex_target)" "noise_ramp_length ex_proj \<noteq> 0"
    "lr_rampdown_length ex_proj \<noteq> 0" "lr_rampup_length ex_proj \<noteq> 0"
    by (simp_all add: ex_target_def ex_proj_eq)
  have two: "(1::int) \<le> 2" and one: "(1::int) \<le> 1" by simp_all
  have A: "\<exists>cs s'. run ex_env ex_target 2 ex_proj = Inr s' \<and> length cs = 2 \<and>
      (\<exists>r l. step ex_env (cs ! 0) = Inr r \<and> loss r = Some l \<and>
         cs ! 1 = r\<lparr>out := out r @ [SetDescription l (lr r)], cur_step := Some 1\<rparr>) \<and>
      (\<exists>r l. step ex_env (cs ! 1) = Inr r \<and> loss r = Some l \<and>
         s' = r\<lparr>out := out r @ [SetDescription l (lr r)]\<rparr>) \<and>
      cur_step (cs ! 0) = Some 0 \<and> cur_step (cs ! 1) = Some 1 \<and>
      progress (cs ! 0) = Inr 0 \<and> progress (cs ! 1) = Inr (1 / 2) \<and>
      rng s' = 3 \<and> cur_step s' = Some 1 \<and>
      length (filter is_description (out s')) = 2"
  proof -
    from run_executes_num_steps_updates[OF two h, of ex_env]
    obtain s0 cs s' where a:
      "run ex_env ex_target 2 ex_proj = Inr s'"
      "length cs = nat 2"
      "\<forall>k. Suc k < nat 2 \<longrightarrow>
              (\<exists>r l. step ex_env (cs ! k) = Inr r \<and> loss r = Some l \<and>
                 cs ! Suc k = r\<lparr>out := out r @ [SetDescription l (lr r)],
                               cur_step := Some (int (Suc k))\<rparr>)"
      "\<exists>r l. step ex_env (cs ! (nat 2 - 1)) = Inr r \<and> loss r = Some l \<and>
              s' = r\<lparr>out := out r @ [SetDescription l (lr r)]\<rparr>"
      "\<forall>k<nat 2. cur_step (cs ! k) = Some (int k) \<and> num_steps (cs ! k) = 2 \<and>
                       progress (cs ! k) = Inr (real k / real_of_int 2) \<and>
                       0 \<le> real k / real_of_int 2 \<and> real k / real_of_int 2 < 1"
      "rng s' = rng ex_proj + nat 2"
      "length (filter is_description (out s')) =
             length (filter is_description (out ex_proj)) + nat 2"
      "cur_step s' = Some (2 - 1)"
      by blast
    have k0: "Suc 0 < nat 2" "(0::nat) < nat 2" "(1::nat) < nat 2" by simp_all
    have b1: "\<exists>r l. step ex_env (cs ! 0) = Inr r \<and> loss r = Some l \<and>
         cs ! 1 = r\<lparr>out := out r @ [SetDescription l (lr r)], cur_step := Some 1\<rparr>"
      using a(3)[rule_format, OF k0(1)] by simp
    have b2: "\<exists>r l. step ex_env (cs ! 1) = Inr r \<and> loss r = Some l \<and>
         s' = r\<lparr>out := out r @ [SetDescription l (lr r)]\<rparr>"
      using a(4) by simp
    have b3: "cur_step (cs ! 0) = Some 0" "progress (cs ! 0) = Inr 0"
      using a(5)[rule_format, OF k0(2)] by simp_all
    have b4: "cur_step (cs ! 1) = Some 1" "progress (cs ! 1) = Inr (1 / 2)"
      using a(5)[rule_format, OF k0(3)] by simp_all
    have b5: "rng s' = 3" "cur_step s' = Some 1" "length (filter is_description (out s')) = 2"
      using a(6,7,8) by (simp_all add: ex_proj_eq)
    have b6: "length cs = 2" using a(2) by simp
    show ?thesis
      by (rule exI[of _ cs], rule exI[of _ s'])
        (intro conjI a(1) b6 b1 b2 b3 b4 b5)
  qed
  have B: "\<exists>cs s'. run ex_env ex_target 1 ex_proj = Inr s' \<and> length cs = 1 \<and>
      (\<exists>r l. step ex_env (cs ! 0) = Inr r \<and> loss r = Some l \<and>
         s' = r\<lparr>out := out r @ [SetDescription l (lr r)]\<rparr>) \<and>
      progress (cs ! 0) = Inr 0"
  proof -
    from run_executes_num_steps_updates[OF one h, of ex_env]
    obtain s0 cs s' where a:
      "run ex_env ex_target 1 ex_proj = Inr s'"
      "length cs = nat 1"
      "\<exists>r l. step ex_env (cs ! (nat 1 - 1)) = Inr r \<and> loss r = Some l \<and>
              s' = r\<lparr>out := out r @ [SetDescription l (lr r)]\<rparr>"
      "(1::int) = 1 \<longrightarrow> progress (cs ! 0) = Inr 0"
      by blast
    have c1: "length cs = 1" using a(2) by simp
    have c2: "\<exists>r l. step ex_env (cs ! 0) = Inr r \<and> loss r = Some l \<and>
         s' = r\<lparr>out := out r @ [SetDescription l (lr r)]\<rparr>"
      using a(3) by simp
    have c3: "progress (cs ! 0) = Inr 0" using a(4) by simp
    show ?thesis
      by (rule exI[of _ cs], rule exI[of _ s']) (intro conjI a(1) c1 c2 c3)
  qed
  show ?thesis by (intro conjI two h A B)
qed

text \<open>
  Claim C2.  With positive ramp lengths, \<^verbatim>\<open>update_lr(t)\<close> sets the learning rate of the
  Projector and of the optimizer's parameter group to
  \<open>initial_lr * (0.5 - 0.5 * cos (min 1 ((1 - t) / lr_rampdown_length) * pi))
   * min 1 (t / lr_rampup_length)\<close>,
  and every step applies it at its progress fraction; the rate is 0 at \<open>t = 0\<close>, equals
  \<open>initial_lr\<close> wherever both ramps are saturated, and tends to 0 as \<open>t\<close> tends to 1.
\<close>

theorem effective_learning_rate_schedule:
  assumes "0 < lr_rampdown_length s" and "0 < lr_rampup_length s"
  shows "(\<exists>s'. update_lr t s = Inr s' \<and>
            lr s' = initial_lr s
                      * (0.5 - 0.5 * cos (min 1 ((1 - t) / lr_rampdown_length s) * pi))
                      * min 1 (t / lr_rampup_length s) \<and>
            param_lr (opt s') = lr s' \<and> lr s' = spec_effective_lr s t) \<and>
         (\<forall>s'. step e s = Inr s' \<longrightarrow>
            (\<exists>u. progress s = Inr u \<and> param_lr (opt s') = spec_effective_lr s u)) \<and>
         spec_effective_lr s 0 = 0 \<and>
         (lr_rampup_length s \<le> t \<and> t \<le> 1 - lr_rampdown_length s \<longrightarrow>
            spec_effective_lr s t = initial_lr s) \<and>
         (\<forall>eps>0. \<exists>d>0. \<forall>u. \<bar>u - 1\<bar> < d \<longrightarrow> \<bar>spec_effective_lr s u\<bar> < eps)"
proof -
  have nz: "lr_rampdown_length s \<noteq> 0" "lr_rampup_length s \<noteq> 0" using assms by simp_all
  have 1: "\<exists>s'. update_lr t s = Inr s' \<and>
            lr s' = initial_lr s
                      * (0.5 - 0.5 * cos (min 1 ((1 - t) / lr_rampdown_length s) * pi))
                      * min 1 (t / lr_rampup_length s) \<and>
            param_lr (opt s') = lr s' \<and> lr s' = spec_effective_lr s t"
    using update_lr_eq[OF nz, of t] by (simp add: spec_effective_lr_def)
  have 2: "\<forall>s'. step e s = Inr s' \<longrightarrow>
            (\<exists>u. progress s = Inr u \<and> param_lr (opt s') = spec_effective_lr s u)"
    using step_lr by blast
  have 3: "spec_effective_lr s 0 = 0" using nz(2) by (rule spec_effective_lr_start)
  have 4: "lr_rampup_length s \<le> t \<and> t \<le> 1 - lr_rampdown_length s \<longrightarrow>
            spec_effective_lr s t = initial_lr s"
    using spec_effective_lr_plateau[OF assms] by blast
  have 5: "\<forall>eps>0. \<exists>d>0. \<forall>u. \<bar>u - 1\<bar> < d \<longrightarrow> \<bar>spec_effective_lr s u\<bar> < eps"
    using spec_effective_lr_limit[OF nz] by blast
  show ?thesis using 1 2 3 4 5 by (intro conjI)
qed

theorem effective_learning_rate_schedule_witness:
  "0 < lr_rampdown_length (ex_s0\<lparr>cur_step := Some 0\<rparr>) \<and>
   0 < lr_rampup_length (ex_s0\<lparr>cur_step := Some 0\<rparr>) \<and>
   step ex_env (ex_s0\<lparr>cur_step := Some 0\<rparr>) = Inr ex_s1 \<and>
   progress (ex_s0\<lparr>cur_step := Some 0\<rparr>) = Inr 0 \<and>
   param_lr (opt ex_s1) = 0 \<and>
   spec_effective_lr (ex_s0\<lparr>cur_step := Some 0\<rparr>) (1 / 2) = 1 / 10 \<and>
   (\<exists>d>0. \<forall>u. \<bar>u - 1\<bar> < d \<longrightarrow> \<bar>spec_effective_lr (ex_s0\<lparr>cur_step := Some 0\<rparr>) u\<bar> < 1)"
proof -
  let ?s = "ex_s0\<lparr>cur_step := Some 0\<rparr>"
  have h: "0 < lr_rampdown_length ?s" "0 < lr_rampup_length ?s"
    by (simp_all add: ex_s0_def ex_proj_eq)
  have v: "lr_rampdown_length ?s = 1 / 4" "lr_rampup_length ?s = 1 / 20" "initial_lr ?s = 1 / 10"
    by (simp_all add: ex_s0_def ex_proj_eq)
  have pr: "progress ?s = Inr 0" by (simp add: progress_def ex_s0_def)
  note th = effective_learning_rate_schedule[OF h, of "1 / 2" ex_env]
  have a: "\<exists>u. progress ?s = Inr u \<and> param_lr (opt ex_s1) = spec_effective_lr ?s u"
    using th ex_step0 by blast
  have z: "spec_effective_lr ?s 0 = 0" using th by blast
  have b: "param_lr (opt ex_s1) = 0" using a pr z by auto
  have "lr_rampup_length ?s \<le> 1 / 2 \<and> 1 / 2 \<le> 1 - lr_rampdown_length ?s"
    by (simp add: v)
  then have "spec_effective_lr ?s (1 / 2) = initial_lr ?s" using th by blast
  then have c: "spec_effective_lr ?s (1 / 2) = 1 / 10" by (simp add: v)
  have d: "\<exists>d>0. \<forall>u. \<bar>u - 1\<bar> < d \<longrightarrow> \<bar>spec_effective_lr ?s u\<bar> < 1"
    using th by (elim conjE allE[of _ "1::real"]) simp
  show ?thesis using h ex_step0 pr b c d by (intro conjI)
qed

text \<open>
  Claim C3.  With a positive noise ramp length and non-negative latent spread and initial
  noise factor, the strength of the noise a step adds to the latent is
  \<open>latent_std * initial_noise_factor * (max 0 (1 - t / noise_ramp_length))\<^sup>2\<close>; it does
  not increase when \<open>t\<close> grows, and it is exactly 0 for every \<open>t \<ge> noise_ramp_length\<close>.
\<close>

theorem noise_magnitude_annealing:
  assumes "0 < noise_ramp_length s" and "0 \<le> latent_std s" and "0 \<le> initial_noise_factor s"
  shows "noise_strength s t =
           Inr (latent_std s * initial_noise_factor s
                  * (max 0 (1 - t / noise_ramp_length s))\<^sup>2) \<and>
         (\<forall>s'. step e s = Inr s' \<longrightarrow>
            (\<exists>u ns. progress s = Inr u \<and> noise_strength s u = Inr ns \<and>
               latent_expr s' =
                 Some (madd (deref s (latent_in s))
                         (mscale (randn_like e (rng s) (deref s (latent_in s))) ns)))) \<and>
         (\<forall>u v a b. u \<le> v \<and> noise_strength s u = Inr a \<and> noise_strength s v = Inr b
            \<longrightarrow> b \<le> a) \<and>
         (\<forall>u. noise_ramp_length s \<le> u \<longrightarrow> noise_strength s u = Inr 0)"
proof -
  have nz: "noise_ramp_length s \<noteq> 0" using assms(1) by simp
  note ns = noise_strength_eq[OF nz]
  have 1: "noise_strength s t =
           Inr (latent_std s * initial_noise_factor s
                  * (max 0 (1 - t / noise_ramp_length s))\<^sup>2)"
    by (simp add: ns spec_noise_magnitude_def)
  have 2: "\<forall>s'. step e s = Inr s' \<longrightarrow>
            (\<exists>u ns. progress s = Inr u \<and> noise_strength s u = Inr ns \<and>
               latent_expr s' =
                 Some (madd (deref s (latent_in s))
                         (mscale (randn_like e (rng s) (deref s (latent_in s))) ns)))"
  proof (intro allI impI)
    fix s' assume "step e s = Inr s'"
    from step_latent_expr[OF this] obtain u where "progress s = Inr u"
      "latent_expr s' = Some (madd (deref s (latent_in s))
          (mscale (randn_like e (rng s) (deref s (latent_in s))) (spec_noise_magnitude s u)))"
      by blast
    then show "\<exists>u ns. progress s = Inr u \<and> noise_strength s u = Inr ns \<and>
               latent_expr s' =
                 Some (madd (deref s (latent_in s))
                         (mscale (randn_like e (rng s) (deref s (latent_in s))) ns))"
      using ns by blast
  qed
  have 3: "\<forall>u v a b. u \<le> v \<and> noise_strength s u = Inr a \<and> noise_strength s v = Inr b
            \<longrightarrow> b \<le> a"
    using spec_noise_magnitude_mono[OF assms] by (simp add: ns)
  have 4: "\<forall>u. noise_ramp_length s \<le> u \<longrightarrow> noise_strength s u = Inr 0"
    using spec_noise_magnitude_zero[OF assms(1)] by (simp add: ns)
  show ?thesis using 1 2 3 4 by (intro conjI)
qed

theorem noise_magnitude_annealing_witness:
  "0 < noise_ramp_length (ex_s0\<lparr>cur_step := Some 0\<rparr>) \<and>
   0 \<le> latent_std (ex_s0\<lparr>cur_step := Some 0\<rparr>) \<and>
   0 \<le> initial_noise_factor (ex_s0\<lparr>cur_step := Some 0\<rparr>) \<and>
   noise_strength (ex_s0\<lparr>cur_step := Some 0\<rparr>) 0 = Inr (1 / 10) \<and>
   noise_strength (ex_s0\<lparr>cur_step := Some 0\<rparr>) (1 / 2) = Inr (1 / 90) \<and>
   (1 / 90 :: real) \<le> 1 / 10 \<and>
   noise_strength (ex_s0\<lparr>cur_step := Some 0\<rparr>) (4 / 5) = Inr 0 \<and>
   step ex_env (ex_s0\<lparr>cur_step := Some 0\<rparr>) = Inr ex_s1 \<and>
   latent_expr ex_s1 = Some [[1 / 10, 1 / 10]]"
proof -
  let ?s = "ex_s0\<lparr>cur_step := Some 0\<rparr>"
  have v: "noise_ramp_length ?s = 3 / 4" "latent_std ?s = 2" "initial_noise_factor ?s = 1 / 20"
    by (simp_all add: ex_s0_def ex_proj_eq)
  have h: "0 < noise_ramp_length ?s" "0 \<le> latent_std ?s" "0 \<le> initial_noise_factor ?s"
    by (simp_all add: v)
  have a: "noise_strength ?s 0 = Inr (1 / 10)"
    using noise_magnitude_annealing[OF h, of 0 ex_env] by (simp add: v)
  have b: "noise_strength ?s (1 / 2) = Inr (1 / 90)"
    using noise_magnitude_annealing[OF h, of "1 / 2" ex_env] by (simp add: v power2_eq_square)
  have m: "\<forall>u v a b. u \<le> v \<and> noise_strength ?s u = Inr a \<and> noise_strength ?s v = Inr b
            \<longrightarrow> b \<le> a"
    using noise_magnitude_annealing[OF h, of 0 ex_env] by blast
  have c: "(1 / 90 :: real) \<le> 1 / 10" using m a b by simp
  have "noise_ramp_length ?s \<le> 4 / 5" by (simp add: v)
  then have d: "noise_strength ?s (4 / 5) = Inr 0"
    using noise_magnitude_annealing[OF h, of 0 ex_env] by blast
  have e: "latent_expr ex_s1 = Some [[1 / 10, 1 / 10]]" by (simp add: ex_s1_def)
  show ?thesis using h a b c d ex_step0 e by (intro conjI)
qed

text \<open>
  Claim C4, as the code has it.  In a step whose optimizer parameter is the stored latent,
  the perturbed latent (the stored latent plus the standard-normal sample scaled by the
  noise strength) is the value the generator is run on: the generated image, the loss and
  the gradient are those of the perturbed latent.  The optimizer update, however, starts
  from the stored latent itself: the new stored latent is the Adam update of the old
  stored latent with that gradient, so the noise enters it only through the point at
  which the gradient is taken.
\<close>

theorem step_gradient_at_perturbed_latent:
  assumes "step e s = Inr s'" and "opt_param (opt s) = latent_in s"
  shows "\<exists>t ns tgt latent_noise.
           progress s = Inr t \<and> noise_strength s t = Inr ns \<and> target_image s = Some tgt \<and>
           latent_noise = mscale (randn_like e (rng s) (deref s (latent_in s))) ns \<and>
           latent_expr s' = Some (madd (deref s (latent_in s)) latent_noise) \<and>
           img_gen s' = Some (forward e (madd (deref s (latent_in s)) latent_noise)) \<and>
           loss s' = Some (total_loss e s tgt (forward e (madd (deref s (latent_in s)) latent_noise))) \<and>
           deref s' (latent_in s') =
             fst (adam_step (ostate (opt s)) (lr s')
                    (backward e (\<lambda>y. total_loss e s tgt (forward e (madd y latent_noise)))
                       (deref s (latent_in s)))
                    (deref s (latent_in s)))"
proof -
  from assms(1) obtain t tgt where h: "progress s = Inr t"
    "noise_strength s t = Inr (spec_noise_magnitude s t)"
    "target_image s = Some tgt" "s' = step_result e s t tgt"
    by (rule step_InrE)
  let ?n = "mscale (randn_like e (rng s) (deref s (latent_in s))) (spec_noise_magnitude s t)"
  have "latent_expr s' = Some (madd (deref s (latent_in s)) ?n) \<and>
        img_gen s' = Some (forward e (madd (deref s (latent_in s)) ?n)) \<and>
        loss s' = Some (total_loss e s tgt (forward e (madd (deref s (latent_in s)) ?n))) \<and>
        deref s' (latent_in s') =
          fst (adam_step (ostate (opt s)) (lr s')
                 (backward e (\<lambda>y. total_loss e s tgt (forward e (madd y ?n)))
                    (deref s (latent_in s)))
                 (deref s (latent_in s)))"
    using h(4) assms(2) by (simp add: step_result_def Let_def deref_def)
  then show ?thesis using h(1,2,3) by blast
qed

theorem step_gradient_at_perturbed_latent_witness:
  "step ex_env (ex_s0\<lparr>cur_step := Some 0\<rparr>) = Inr ex_s1 \<and>
   opt_param (opt (ex_s0\<lparr>cur_step := Some 0\<rparr>)) = latent_in (ex_s0\<lparr>cur_step := Some 0\<rparr>) \<and>
   (\<exists>ns tgt. latent_expr ex_s1
       = Some (madd (deref (ex_s0\<lparr>cur_step := Some 0\<rparr>) (latent_in (ex_s0\<lparr>cur_step := Some 0\<rparr>)))
                 (mscale (randn_like ex_env (rng (ex_s0\<lparr>cur_step := Some 0\<rparr>))
                            (deref (ex_s0\<lparr>cur_step := Some 0\<rparr>)
                               (latent_in (ex_s0\<lparr>cur_step := Some 0\<rparr>)))) ns)))"
proof -
  let ?s = "ex_s0\<lparr>cur_step := Some 0\<rparr>"
  have h: "opt_param (opt ?s) = latent_in ?s" by (simp add: ex_s0_def ex_proj_eq)
  have "\<exists>ns tgt. latent_expr ex_s1
       = Some (madd (deref ?s (latent_in ?s))
                 (mscale (randn_like ex_env (rng ?s) (deref ?s (latent_in ?s))) ns))"
    using step_gradient_at_perturbed_latent[OF ex_step0 h] by blast
  then show ?thesis using ex_step0 h by (intro conjI)
qed

text \<open>
  The noise sample is not added to the stored latent.  In the first two steps of the
  example run the stored latent goes from \<open>[[0, 0]]\<close> to \<open>[[0, 0]]\<close> (learning rate 0) and then
  to \<open>[[-c, -c]]\<close> with \<open>c = 10000000/100000001\<close>, while an update that started from the
  perturbed latents \<open>[[1/10, 1/10]]\<close> and \<open>[[1/90, 1/90]]\<close> would have given
  \<open>[[1/10, 1/10]]\<close> and \<open>[[1/90 - c, 1/90 - c]]\<close>.
\<close>

theorem noise_not_incorporated_counterexample:
  "step ex_env (ex_s0\<lparr>cur_step := Some 0\<rparr>) = Inr ex_s1 \<and>
   deref (ex_s0\<lparr>cur_step := Some 0\<rparr>) (latent_in (ex_s0\<lparr>cur_step := Some 0\<rparr>)) = [[0, 0]] \<and>
   latent_expr ex_s1 = Some [[1/10, 1/10]] \<and>
   lr ex_s1 = 0 \<and>
   deref ex_s1 (latent_in ex_s1) = [[0, 0]] \<and>
   fst (adam_step (ostate (opt (ex_s0\<lparr>cur_step := Some 0\<rparr>))) (lr ex_s1) [[1, 1]] [[1/10, 1/10]])
     = [[1/10, 1/10]] \<and>
   deref ex_s1 (latent_in ex_s1)
     \<noteq> fst (adam_step (ostate (opt (ex_s0\<lparr>cur_step := Some 0\<rparr>))) (lr ex_s1) [[1, 1]]
              [[1/10, 1/10]]) \<and>
   step ex_env (ex_s1\<lparr>out := out ex_s1 @ [SetDescription (1/5) 0], cur_step := Some 1\<rparr>)
     = Inr ex_s2 \<and>
   latent_expr ex_s2 = Some [[1/90, 1/90]] \<and>
   lr ex_s2 = 1/10 \<and>
   deref ex_s2 (latent_in ex_s2) = [[- (10000000/100000001), - (10000000/100000001)]] \<and>
   fst (adam_step (ostate (opt ex_s1)) (lr ex_s2) [[1, 1]] [[1/90, 1/90]])
     = [[1/90 - 10000000/100000001, 1/90 - 10000000/100000001]] \<and>
   deref ex_s2 (latent_in ex_s2)
     \<noteq> fst (adam_step (ostate (opt ex_s1)) (lr ex_s2) [[1, 1]] [[1/90, 1/90]])"
proof -
  have a: "deref (ex_s0\<lparr>cur_step := Some 0\<rparr>) (latent_in (ex_s0\<lparr>cur_step := Some 0\<rparr>)) = [[0, 0]]"
    by (simp add: deref_def ex_s0_def ex_proj_eq)
  have b: "latent_expr ex_s1 = Some [[1/10, 1/10]]" "lr ex_s1 = 0" by (simp_all add: ex_s1_def)
  have c: "deref ex_s1 (latent_in ex_s1) = [[0, 0]]"
    by (simp add: deref_def ex_s1_def ex_s0_def ex_proj_eq)
  have d: "fst (adam_step (ostate (opt (ex_s0\<lparr>cur_step := Some 0\<rparr>))) 0 [[1, 1]] [[1/10, 1/10]])
     = [[1/10, 1/10]]"
    by (simp add: adam_step_def Let_def mzip_with_def zeros_like_def ex_s0_def ex_proj_eq)
  have d': "fst (adam_step (ostate (opt (ex_s0\<lparr>cur_step := Some 0\<rparr>))) (lr ex_s1) [[1, 1]]
              [[1/10, 1/10]]) = [[1/10, 1/10]]"
    unfolding b(2) by (rule d)
  have e: "deref ex_s1 (latent_in ex_s1)
     \<noteq> fst (adam_step (ostate (opt (ex_s0\<lparr>cur_step := Some 0\<rparr>))) (lr ex_s1) [[1, 1]]
              [[1/10, 1/10]])"
    unfolding c d' by simp
  have f: "latent_expr ex_s2 = Some [[1/90, 1/90]]" "lr ex_s2 = 1/10"
    by (simp_all add: ex_s2_def)
  have g: "deref ex_s2 (latent_in ex_s2) = [[- (10000000/100000001), - (10000000/100000001)]]"
    by (simp add: deref_def ex_s2_def ex_s1_def ex_s0_def ex_proj_eq)
  have h: "fst (adam_step (ostate (opt ex_s1)) (1/10) [[1, 1]] [[1/90, 1/90]])
     = [[1/90 - 10000000/100000001, 1/90 - 10000000/100000001]]"
    by (simp add: adam_step_def Let_def mzip_with_def zeros_like_def ex_s1_def ex_s0_def
        ex_proj_eq)
  have h': "fst (adam_step (ostate (opt ex_s1)) (lr ex_s2) [[1, 1]] [[1/90, 1/90]])
     = [[1/90 - 10000000/100000001, 1/90 - 10000000/100000001]]"
    unfolding f(2) by (rule h)
  have i: "deref ex_s2 (latent_in ex_s2)
     \<noteq> fst (adam_step (ostate (opt ex_s1)) (lr ex_s2) [[1, 1]] [[1/90, 1/90]])"
    unfolding g h' by simp
  show ?thesis using ex_step0 a b c d' e ex_step1 f g h' i by (intro conjI)
qed




text \<open>
  Claim C6, as the code has it.  \<^verbatim>\<open>prepare_input\<close> looks at the third dimension of the
  batched tensor only, which is the height: a single image of shape \<open>[c, h, w]\<close> is promoted
  to a batch and a batch of shape \<open>[b, c, h, w]\<close> is taken as it is, and the result is passed
  through \<^verbatim>\<open>downsample_256\<close> if and only if \<open>h > 256\<close>; otherwise it is stored unchanged.  This
  is the target every step of the run is given.
\<close>

theorem target_downsampled_when_height_exceeds_256:
  "(\<forall>c h w. shape target = [c, h, w] \<longrightarrow>
      (\<exists>s'. prepare_input e target s = Inr s' \<and>
            target_image s' =
              Some (if 256 < h then downsample_256 e (unsqueeze0 target)
                    else unsqueeze0 target))) \<and>
   (\<forall>b c h w. shape target = [b, c, h, w] \<longrightarrow>
      (\<exists>s'. prepare_input e target s = Inr s' \<and>
            target_image s' = Some (if 256 < h then downsample_256 e target else target))) \<and>
   (\<forall>c h w s'. shape target = [c, h, w] \<and> run e target n s = Inr s' \<longrightarrow>
      target_image s' =
        Some (if 256 < h then downsample_256 e (unsqueeze0 target) else unsqueeze0 target)) \<and>
   (\<forall>b c h w s'. shape target = [b, c, h, w] \<and> run e target n s = Inr s' \<longrightarrow>
      target_image s' = Some (if 256 < h then downsample_256 e target else target))"
proof (intro conjI allI impI)
  fix c h w assume sh: "shape target = [c, h, w]"
  then have "3 \<le> length (shape target)" by simp
  from prepare_input_eq[OF this, of e s] prepared_3d[OF sh, of e]
  show "\<exists>s'. prepare_input e target s = Inr s' \<and>
            target_image s' =
              Some (if 256 < h then downsample_256 e (unsqueeze0 target)
                    else unsqueeze0 target)"
    by simp
next
  fix b c h w assume sh: "shape target = [b, c, h, w]"
  then have "3 \<le> length (shape target)" by simp
  from prepare_input_eq[OF this, of e s] prepared_4d[OF sh, of e]
  show "\<exists>s'. prepare_input e target s = Inr s' \<and>
            target_image s' = Some (if 256 < h then downsample_256 e target else target)"
    by simp
next
  fix c h w s' assume "shape target = [c, h, w] \<and> run e target n s = Inr s'"
  then show "target_image s' =
        Some (if 256 < h then downsample_256 e (unsqueeze0 target) else unsqueeze0 target)"
    using run_target_image[of e target n s s'] prepared_3d[of target c h w e] by simp
next
  fix b c h w s' assume "shape target = [b, c, h, w] \<and> run e target n s = Inr s'"
  then show "target_image s' = Some (if 256 < h then downsample_256 e target else target)"
    using run_target_image[of e target n s s'] prepared_4d[of target b c h w e] by simp
qed

theorem target_downsampled_when_height_exceeds_256_witness:
  "shape ex_target = [3, 256, 256] \<and>
   shape ex_batched = [1, 3, 256, 256] \<and>
   (\<exists>s'. prepare_input ex_env ex_target ex_proj = Inr s' \<and>
         target_image s' = Some (unsqueeze0 ex_target)) \<and>
   (\<exists>s'. prepare_input ex_env ex_batched ex_proj = Inr s' \<and>
         target_image s' = Some ex_batched) \<and>
   run ex_env ex_target 2 ex_proj = Inr ex_final \<and>
   target_image ex_final = Some (unsqueeze0 ex_target) \<and>
   run ex_env ex_batched 0 ex_proj =
     Inr (ex_proj\<lparr>num_steps := 0, target_image := Some ex_batched,
                 out := out ex_proj @ [PrintShape [1, 3, 256, 256], InfoRunning]\<rparr>) \<and>
   target_image (ex_proj\<lparr>num_steps := 0, target_image := Some ex_batched,
                 out := out ex_proj @ [PrintShape [1, 3, 256, 256], InfoRunning]\<rparr>)
     = Some ex_batched"
proof -
  note th3 = target_downsampled_when_height_exceeds_256[of ex_target ex_env ex_proj 2]
  note th4 = target_downsampled_when_height_exceeds_256[of ex_batched ex_env ex_proj 0]
  have s3: "shape ex_target = [3, 256, 256]" by (simp add: ex_target_def)
  have s4: "shape ex_batched = [1, 3, 256, 256]" by (simp add: ex_batched_def)
  have a: "\<exists>s'. prepare_input ex_env ex_target ex_proj = Inr s' \<and>
         target_image s' = Some (unsqueeze0 ex_target)"
    using th3[THEN conjunct1, rule_format, OF s3] by simp
  have b: "\<exists>s'. prepare_input ex_env ex_batched ex_proj = Inr s' \<and>
         target_image s' = Some ex_batched"
    using th4[THEN conjunct2, THEN conjunct1, rule_format, OF s4] by simp
  have c: "target_image ex_final = Some (unsqueeze0 ex_target)"
    using th3[THEN conjunct2, THEN conjunct2, THEN conjunct1, rule_format, of 3 256 256 ex_final]
      s3 ex_run_final by simp
  have r0: "run ex_env ex_batched 0 ex_proj =
     Inr (ex_proj\<lparr>num_steps := 0, target_image := Some ex_batched,
                 out := out ex_proj @ [PrintShape [1, 3, 256, 256], InfoRunning]\<rparr>)"
    by (simp add: run_def prepare_input_def Let_def py_range_def ex_batched_def)
      (simp add: ex_proj_eq)
  have d: "target_image (ex_proj\<lparr>num_steps := 0, target_image := Some ex_batched,
                 out := out ex_proj @ [PrintShape [1, 3, 256, 256], InfoRunning]\<rparr>)
     = Some ex_batched"
    using th4[THEN conjunct2, THEN conjunct2, THEN conjunct2, rule_format, of 1 3 256 256
        "ex_proj\<lparr>num_steps := 0, target_image := Some ex_batched,
                 out := out ex_proj @ [PrintShape [1, 3, 256, 256], InfoRunning]\<rparr>"]
      s4 r0 by simp
  show ?thesis using s3 s4 a b ex_run_final c r0 d by (intro conjI)
qed

text \<open>
  The width is not looked at: a target of height 100 and width 512 has its larger spatial
  dimension above 256, and is stored as it is, not downsampled.
\<close>

theorem wide_target_counterexample:
  "shape ex_wide = [3, 100, 512] \<and> 256 < max (100::nat) 512 \<and>
   prepare_input ex_env ex_wide ex_proj =
     Inr (ex_proj\<lparr>target_image := Some (unsqueeze0 ex_wide),
                 out := out ex_proj @ [PrintShape [1, 3, 100, 512]]\<rparr>) \<and>
   run ex_env ex_wide 0 ex_proj =
     Inr (ex_proj\<lparr>num_steps := 0, target_image := Some (unsqueeze0 ex_wide),
                 out := out ex_proj @ [PrintShape [1, 3, 100, 512], InfoRunning]\<rparr>) \<and>
   shape (unsqueeze0 ex_wide) = [1, 3, 100, 512] \<and>
   shape (downsample_256 ex_env (unsqueeze0 ex_wide)) = [1, 3, 256, 256] \<and>
   unsqueeze0 ex_wide \<noteq> downsample_256 ex_env (unsqueeze0 ex_wide)"
proof -
  have p: "prepare_input ex_env ex_wide ex_proj =
     Inr (ex_proj\<lparr>target_image := Some (unsqueeze0 ex_wide),
                 out := out ex_proj @ [PrintShape [1, 3, 100, 512]]\<rparr>)"
    by (simp add: prepare_input_def Let_def ex_wide_def unsqueeze0_def)
  have r: "run ex_env ex_wide 0 ex_proj =
     Inr (ex_proj\<lparr>num_steps := 0, target_image := Some (unsqueeze0 ex_wide),
                 out := out ex_proj @ [PrintShape [1, 3, 100, 512], InfoRunning]\<rparr>)"
    by (simp add: run_def prepare_input_def Let_def py_range_def ex_wide_def unsqueeze0_def)
      (simp add: ex_proj_eq)
  have u: "shape (unsqueeze0 ex_wide) = [1, 3, 100, 512]"
    by (simp add: ex_wide_def unsqueeze0_def)
  have d: "shape (downsample_256 ex_env (unsqueeze0 ex_wide)) = [1, 3, 256, 256]"
    by (simp add: ex_env_def ex_wide_def unsqueeze0_def)
  have ne: "unsqueeze0 ex_wide \<noteq> downsample_256 ex_env (unsqueeze0 ex_wide)"
  proof
    assume "unsqueeze0 ex_wide = downsample_256 ex_env (unsqueeze0 ex_wide)"
    then have "shape (unsqueeze0 ex_wide) = shape (downsample_256 ex_env (unsqueeze0 ex_wide))"
      by simp
    then show False by (simp add: u d)
  qed
  show ?thesis using p r u d ne by (simp add: ex_wide_def)
qed

text \<open>
  Claim C7.  Of two successive successful runs on one Projector (whose optimizer parameter
  is the stored latent, as the constructor leaves it), the second prepares its input in
  the state the first one left, replacing the step count, the target image and the
  terminal output only.  With at least one step, its first invocation of \<^verbatim>\<open>step\<close> (index 0)
  is made on the store and the optimizer of the first run's result: the stored latent it
  leaves is the Adam update of the latent the first run produced, and the optimizer state
  it leaves is the successor of the first run's optimizer state; the remaining steps are
  chained to it and give the result of the second run.  With no step, the second run
  leaves the store and the optimizer untouched.  No run changes the latent handle, the
  optimizer's parameter, or the latent statistics computed at construction.
\<close>

theorem run_warm_start:
  assumes "run e target1 n1 s = Inr s1" and "run e target2 n2 s1 = Inr s2"
    and "opt_param (opt s) = latent_in s"
  shows "(1 \<le> n2 \<longrightarrow>
           (\<exists>s0 cs r g.
              prepare_input e target2 (s1\<lparr>num_steps := n2\<rparr>) = Inr s0 \<and>
              s0 = s1\<lparr>num_steps := n2, target_image := target_image s0, out := out s0\<rparr> \<and>
              length cs = nat n2 \<and>
              cs ! 0 = s0\<lparr>out := out s0 @ (if verbose s0 then [InfoRunning] else []),
                          cur_step := Some 0\<rparr> \<and>
              mem (cs ! 0) = mem s1 \<and> opt (cs ! 0) = opt s1 \<and>
              latent_in (cs ! 0) = latent_in s1 \<and>
              step e (cs ! 0) = Inr r \<and>
              deref r (latent_in r) =
                fst (adam_step (ostate (opt s1)) (lr r) g (deref s1 (latent_in s1))) \<and>
              ostate (opt r) =
                snd (adam_step (ostate (opt s1)) (lr r) g (deref s1 (latent_in s1))) \<and>
              (\<forall>k. Suc k < nat n2 \<longrightarrow>
                 (\<exists>r l. step e (cs ! k) = Inr r \<and> loss r = Some l \<and>
                    cs ! Suc k = r\<lparr>out := out r @ [SetDescription l (lr r)],
                                  cur_step := Some (int (Suc k))\<rparr>)) \<and>
              (\<exists>r l. step e (cs ! (nat n2 - 1)) = Inr r \<and> loss r = Some l \<and>
                 s2 = r\<lparr>out := out r @ [SetDescription l (lr r)]\<rparr>))) \<and>
         (n2 \<le> 0 \<longrightarrow>
           (\<exists>s0. prepare_input e target2 (s1\<lparr>num_steps := n2\<rparr>) = Inr s0 \<and>
              s0 = s1\<lparr>num_steps := n2, target_image := target_image s0, out := out s0\<rparr> \<and>
              s2 = s0\<lparr>out := out s0 @ (if verbose s0 then [InfoRunning] else [])\<rparr> \<and>
              mem s2 = mem s1 \<and> opt s2 = opt s1)) \<and>
         latent_in s1 = latent_in s \<and> latent_in s2 = latent_in s \<and>
         opt_param (opt s1) = latent_in s \<and> opt_param (opt s2) = latent_in s \<and>
         latent_mean s1 = latent_mean s \<and> latent_std s1 = latent_std s \<and>
         n_mean_latent s1 = n_mean_latent s \<and>
         latent_mean s2 = latent_mean s \<and> latent_std s2 = latent_std s \<and>
         n_mean_latent s2 = n_mean_latent s"
proof -
  note f1 = run_frame[OF assms(1)]
  note f2 = run_frame[OF assms(2)]
  note d2 = run_InrD[OF assms(2)]
  let ?s0 = "loop_entry e s1 n2 target2"
  let ?cs = "step_calls e (py_range n2) ?s0"
  obtain s0 where s0: "prepare_input e target2 (s1\<lparr>num_steps := n2\<rparr>) = Inr s0"
    and le: "?s0 = s0\<lparr>out := out s0 @ (if verbose s0 then [InfoRunning] else [])\<rparr>"
    using loop_entry_prepare[OF d2, where e=e and s=s1 and n=n2] by blast
  have s0_eq: "s0 = s1\<lparr>num_steps := n2, target_image := Some (prepared e target2),
                       out := out s1 @ [PrintShape (shape (prepared e target2))]\<rparr>"
    using s0 prepare_input_eq[OF d2, of e "s1\<lparr>num_steps := n2\<rparr>"] by simp
  have s0_only: "s0 = s1\<lparr>num_steps := n2, target_image := target_image s0, out := out s0\<rparr>"
    by (subst (1 2 3) s0_eq) simp
  have rs: "run_steps e (py_range n2) ?s0 = Inr s2" using f2(1) assms(2) by simp
  have op1: "opt_param (opt s1) = latent_in s1" using f1(6,7) assms(3) by simp
  have W: "\<exists>s0 cs r g.
              prepare_input e target2 (s1\<lparr>num_steps := n2\<rparr>) = Inr s0 \<and>
              s0 = s1\<lparr>num_steps := n2, target_image := target_image s0, out := out s0\<rparr> \<and>
              length cs = nat n2 \<and>
              cs ! 0 = s0\<lparr>out := out s0 @ (if verbose s0 then [InfoRunning] else []),
                          cur_step := Some 0\<rparr> \<and>
              mem (cs ! 0) = mem s1 \<and> opt (cs ! 0) = opt s1 \<and>
              latent_in (cs ! 0) = latent_in s1 \<and>
              step e (cs ! 0) = Inr r \<and>
              deref r (latent_in r) =
                fst (adam_step (ostate (opt s1)) (lr r) g (deref s1 (latent_in s1))) \<and>
              ostate (opt r) =
                snd (adam_step (ostate (opt s1)) (lr r) g (deref s1 (latent_in s1))) \<and>
              (\<forall>k. Suc k < nat n2 \<longrightarrow>
                 (\<exists>r l. step e (cs ! k) = Inr r \<and> loss r = Some l \<and>
                    cs ! Suc k = r\<lparr>out := out r @ [SetDescription l (lr r)],
                                  cur_step := Some (int (Suc k))\<rparr>)) \<and>
              (\<exists>r l. step e (cs ! (nat n2 - 1)) = Inr r \<and> loss r = Some l \<and>
                 s2 = r\<lparr>out := out r @ [SetDescription l (lr r)]\<rparr>)"
    if n: "1 \<le> n2"
  proof -
    have T: "0 < nat n2" "py_range n2 \<noteq> []" using n by (simp_all add: py_range_props)
    have rdy: "ready ?s0" using run_steps_Inr_ready[OF rs T(2)] .
    from run_steps_chain[OF rdy, of e "py_range n2"] obtain s' where ch:
      "run_steps e (py_range n2) ?s0 = Inr s'"
      "length ?cs = length (py_range n2)"
      "\<forall>k. Suc k < length (py_range n2) \<longrightarrow>
          (\<exists>r l. step e (?cs ! k) = Inr r \<and> loss r = Some l \<and>
             ?cs ! Suc k = r\<lparr>out := out r @ [SetDescription l (lr r)],
                             cur_step := Some (py_range n2 ! Suc k)\<rparr>)"
      "py_range n2 \<noteq> [] \<longrightarrow>
          (\<exists>r l. step e (?cs ! (length (py_range n2) - 1)) = Inr r \<and> loss r = Some l \<and>
             s' = r\<lparr>out := out r @ [SetDescription l (lr r)]\<rparr>)"
      by blast
    have s'2: "s' = s2" using ch(1) rs by simp
    have 2: "length ?cs = nat n2" using ch(2) by (simp add: py_range_props)
    have "?cs ! 0 = ?s0\<lparr>cur_step := Some (py_range n2 ! 0)\<rparr>"
      using step_calls_hd[OF T(2)] .
    also have "\<dots> = ?s0\<lparr>cur_step := Some 0\<rparr>" using T(1) by (simp add: py_range_props)
    finally have c0: "?cs ! 0 = ?s0\<lparr>cur_step := Some 0\<rparr>" .
    have "?s0\<lparr>cur_step := Some 0\<rparr> =
        s0\<lparr>out := out s0 @ (if verbose s0 then [InfoRunning] else []), cur_step := Some 0\<rparr>"
      unfolding le ..
    with c0 have 3: "?cs ! 0 = s0\<lparr>out := out s0 @ (if verbose s0 then [InfoRunning] else []),
                         cur_step := Some 0\<rparr>"
      by (rule trans)
    have 4: "mem (?cs ! 0) = mem s1" "opt (?cs ! 0) = opt s1" "latent_in (?cs ! 0) = latent_in s1"
      unfolding c0 by (simp_all add: loop_entry_simps)
    have "\<exists>r. step e (?cs ! 0) = Inr r"
    proof (cases "nat n2 = 1")
      case True
      then show ?thesis using ch(4) T(2) by (auto simp: py_range_props)
    next
      case False
      then have "Suc 0 < length (py_range n2)" using T(1) by (simp add: py_range_props)
      then show ?thesis using ch(3) by blast
    qed
    then obtain r where r: "step e (?cs ! 0) = Inr r" by blast
    have "opt_param (opt (?cs ! 0)) = latent_in (?cs ! 0)" using 4 op1 by simp
    from step_adam_update[OF r this] obtain g where g:
      "deref r (latent_in r) =
         fst (adam_step (ostate (opt (?cs ! 0))) (lr r) g (deref (?cs ! 0) (latent_in (?cs ! 0))))"
      "ostate (opt r) =
         snd (adam_step (ostate (opt (?cs ! 0))) (lr r) g (deref (?cs ! 0) (latent_in (?cs ! 0))))"
      by blast
    have dd: "deref (?cs ! 0) (latent_in (?cs ! 0)) = deref s1 (latent_in s1)"
      using 4 by (simp add: deref_def)
    have 5: "deref r (latent_in r) =
                fst (adam_step (ostate (opt s1)) (lr r) g (deref s1 (latent_in s1)))"
      "ostate (opt r) =
                snd (adam_step (ostate (opt s1)) (lr r) g (deref s1 (latent_in s1)))"
      using g unfolding dd 4(2) by simp_all
    have 6: "\<forall>k. Suc k < nat n2 \<longrightarrow>
              (\<exists>r l. step e (?cs ! k) = Inr r \<and> loss r = Some l \<and>
                 ?cs ! Suc k = r\<lparr>out := out r @ [SetDescription l (lr r)],
                               cur_step := Some (int (Suc k))\<rparr>)"
    proof (intro allI impI)
      fix k assume k: "Suc k < nat n2"
      then have "Suc k < length (py_range n2)" by (simp add: py_range_props)
      with ch(3) obtain r l where h: "step e (?cs ! k) = Inr r" "loss r = Some l"
        "?cs ! Suc k = r\<lparr>out := out r @ [SetDescription l (lr r)],
                             cur_step := Some (py_range n2 ! Suc k)\<rparr>"
        by blast
      have "py_range n2 ! Suc k = int (Suc k)" using k by (rule py_range_props(2))
      then have "?cs ! Suc k = r\<lparr>out := out r @ [SetDescription l (lr r)],
                             cur_step := Some (int (Suc k))\<rparr>"
        using h(3) by simp
      with h(1,2) show "\<exists>r l. step e (?cs ! k) = Inr r \<and> loss r = Some l \<and>
                 ?cs ! Suc k = r\<lparr>out := out r @ [SetDescription l (lr r)],
                               cur_step := Some (int (Suc k))\<rparr>"
        by blast
    qed
    have 7: "\<exists>r l. step e (?cs ! (nat n2 - 1)) = Inr r \<and> loss r = Some l \<and>
                s2 = r\<lparr>out := out r @ [SetDescription l (lr r)]\<rparr>"
      using ch(4) T(2) unfolding s'2 by (simp add: py_range_props)
    show ?thesis
      by (rule exI[of _ s0], rule exI[of _ ?cs], rule exI[of _ r], rule exI[of _ g])
        (intro conjI s0 s0_only 2 3 4 r 5 6 7)
  qed
  have Z: "\<exists>s0. prepare_input e target2 (s1\<lparr>num_steps := n2\<rparr>) = Inr s0 \<and>
              s0 = s1\<lparr>num_steps := n2, target_image := target_image s0, out := out s0\<rparr> \<and>
              s2 = s0\<lparr>out := out s0 @ (if verbose s0 then [InfoRunning] else [])\<rparr> \<and>
              mem s2 = mem s1 \<and> opt s2 = opt s1"
    if n: "n2 \<le> 0"
  proof -
    have e: "s2 = ?s0" using f2(8)[OF n] .
    have z1: "s2 = s0\<lparr>out := out s0 @ (if verbose s0 then [InfoRunning] else [])\<rparr>"
      using e le by simp
    have z2: "mem s2 = mem s1" "opt s2 = opt s1" unfolding e by (simp_all add: loop_entry_simps)
    show ?thesis by (rule exI[of _ s0]) (intro conjI s0 s0_only z1 z2)
  qed
  have d: "latent_in s1 = latent_in s" "latent_in s2 = latent_in s"
    "opt_param (opt s1) = latent_in s" "opt_param (opt s2) = latent_in s"
    "latent_mean s1 = latent_mean s" "latent_std s1 = latent_std s"
    "n_mean_latent s1 = n_mean_latent s"
    "latent_mean s2 = latent_mean s" "latent_std s2 = latent_std s"
    "n_mean_latent s2 = n_mean_latent s"
    using f1(3-7) f2(3-7) assms(3) by simp_all
  have W': "1 \<le> n2 \<longrightarrow>
           (\<exists>s0 cs r g.
              prepare_input e target2 (s1\<lparr>num_steps := n2\<rparr>) = Inr s0 \<and>
              s0 = s1\<lparr>num_steps := n2, target_image := target_image s0, out := out s0\<rparr> \<and>
              length cs = nat n2 \<and>
              cs ! 0 = s0\<lparr>out := out s0 @ (if verbose s0 then [InfoRunning] else []),
                          cur_step := Some 0\<rparr> \<and>
              mem (cs ! 0) = mem s1 \<and> opt (cs ! 0) = opt s1 \<and>
              latent_in (cs ! 0) = latent_in s1 \<and>
              step e (cs ! 0) = Inr r \<and>
              deref r (latent_in r) =
                fst (adam_step (ostate (opt s1)) (lr r) g (deref s1 (latent_in s1))) \<and>
              ostate (opt r) =
                snd (adam_step (ostate (opt s1)) (lr r) g (deref s1 (latent_in s1))) \<and>
              (\<forall>k. Suc k < nat n2 \<longrightarrow>
                 (\<exists>r l. step e (cs ! k) = Inr r \<and> loss r = Some l \<and>
                    cs ! Suc k = r\<lparr>out := out r @ [SetDescription l (lr r)],
                                  cur_step := Some (int (Suc k))\<rparr>)) \<and>
              (\<exists>r l. step e (cs ! (nat n2 - 1)) = Inr r \<and> loss r = Some l \<and>
                 s2 = r\<lparr>out := out r @ [SetDescription l (lr r)]\<rparr>))"
    using W by (rule impI)
  have Z': "n2 \<le> 0 \<longrightarrow>
           (\<exists>s0. prepare_input e target2 (s1\<lparr>num_steps := n2\<rparr>) = Inr s0 \<and>
              s0 = s1\<lparr>num_steps := n2, target_image := target_image s0, out := out s0\<rparr> \<and>
              s2 = s0\<lparr>out := out s0 @ (if verbose s0 then [InfoRunning] else [])\<rparr> \<and>
              mem s2 = mem s1 \<and> opt s2 = opt s1)"
    using Z by (rule impI)
  show ?thesis by (intro conjI W' Z' d)
qed

theorem run_warm_start_witness:
  "run ex_env ex_target 2 ex_proj = Inr ex_final \<and>
   opt_param (opt ex_proj) = latent_in ex_proj \<and>
   (\<exists>s2 cs r g. run ex_env ex_target 1 ex_final = Inr s2 \<and> length cs = 1 \<and>
      cur_step (cs ! 0) = Some 0 \<and>
      mem (cs ! 0) = mem ex_final \<and> opt (cs ! 0) = opt ex_final \<and>
      step ex_env (cs ! 0) = Inr r \<and>
      deref r (latent_in r) =
        fst (adam_step (ostate (opt ex_final)) (lr r) g (deref ex_final (latent_in ex_final))) \<and>
      ostate (opt r) =
        snd (adam_step (ostate (opt ex_final)) (lr r) g (deref ex_final (latent_in ex_final))) \<and>
      latent_mean s2 = [0, 0] \<and> latent_std s2 = 2 \<and> latent_in s2 = latent_in ex_proj) \<and>
   (\<exists>s2. run ex_env ex_target 0 ex_final = Inr s2 \<and> mem s2 = mem ex_final \<and>
      opt s2 = opt ex_final)"
proof -
  have sh: "3 \<le> length (shape ex_target)" by (simp add: ex_target_def)
  have op: "opt_param (opt ex_proj) = latent_in ex_proj" by (simp add: ex_proj_def)
  have rdy: "ready (loop_entry ex_env ex_final 1 ex_target)"
    by (simp add: ready_def loop_entry_def ex_final_def ex_s2_def ex_s1_def ex_s0_def ex_proj_eq)
  obtain s2 where s2: "run ex_env ex_target 1 ex_final = Inr s2"
    using run_steps_total[OF rdy, of ex_env "py_range 1"] run_eq(1)[OF sh, of ex_env 1 ex_final]
    by auto
  obtain s3 where s3: "run ex_env ex_target 0 ex_final = Inr s3"
    using run_eq(1)[OF sh, of ex_env 0 ex_final] by (simp add: py_range_def)
  note th = run_warm_start[OF ex_run_final s2 op]
  note th0 = run_warm_start[OF ex_run_final s3 op]
  have one: "(1::int) \<le> 1" and zero: "(0::int) \<le> 0" by simp_all
  from th[THEN conjunct1, rule_format, OF one] obtain s0 cs r g where a:
    "length cs = nat 1"
    "cs ! 0 = s0\<lparr>out := out s0 @ (if verbose s0 then [InfoRunning] else []),
                 cur_step := Some 0\<rparr>"
    "mem (cs ! 0) = mem ex_final" "opt (cs ! 0) = opt ex_final"
    "step ex_env (cs ! 0) = Inr r"
    "deref r (latent_in r) =
        fst (adam_step (ostate (opt ex_final)) (lr r) g (deref ex_final (latent_in ex_final)))"
    "ostate (opt r) =
        snd (adam_step (ostate (opt ex_final)) (lr r) g (deref ex_final (latent_in ex_final)))"
    by blast
  have a1: "length cs = 1" using a(1) by simp
  have a2: "cur_step (cs ! 0) = Some 0" unfolding a(2) by simp
  have m: "latent_mean s2 = latent_mean ex_proj" "latent_std s2 = latent_std ex_proj"
    "latent_in s2 = latent_in ex_proj"
    using th by simp_all
  have m': "latent_mean s2 = [0, 0]" "latent_std s2 = 2"
    using m(1,2) by (simp_all add: ex_proj_def)
  have A: "\<exists>s2 cs r g. run ex_env ex_target 1 ex_final = Inr s2 \<and> length cs = 1 \<and>
      cur_step (cs ! 0) = Some 0 \<and>
      mem (cs ! 0) = mem ex_final \<and> opt (cs ! 0) = opt ex_final \<and>
      step ex_env (cs ! 0) = Inr r \<and>
      deref r (latent_in r) =
        fst (adam_step (ostate (opt ex_final)) (lr r) g (deref ex_final (latent_in ex_final))) \<and>
      ostate (opt r) =
        snd (adam_step (ostate (opt ex_final)) (lr r) g (deref ex_final (latent_in ex_final))) \<and>
      latent_mean s2 = [0, 0] \<and> latent_std s2 = 2 \<and> latent_in s2 = latent_in ex_proj"
    by (rule exI[of _ s2], rule exI[of _ cs], rule exI[of _ r], rule exI[of _ g])
      (intro conjI s2 a1 a2 a(3,4,5,6,7) m' m(3))
  from th0[THEN conjunct2, THEN conjunct1, rule_format, OF zero]
  have z: "mem s3 = mem ex_final" "opt s3 = opt ex_final" by blast+
  have B: "\<exists>s2. run ex_env ex_target 0 ex_final = Inr s2 \<and> mem s2 = mem ex_final \<and>
      opt s2 = opt ex_final"
    by (rule exI[of _ s3]) (intro conjI s3 z)
  show ?thesis by (intro conjI ex_run_final op A B)
qed

text \<open>
  Claim C8, as the code has it.  \<^verbatim>\<open>get_latents()\<close> returns a tensor without gradient tracking
  on the storage of the stored latent: it reads the value of the stored latent at the time
  of the call, and it is not a copy, since after any later step or run it reads whatever
  the stored latent holds then.
\<close>

theorem get_latents_shares_storage:
  "requires_grad (fst (get_latents s)) = False \<and>
   storage (fst (get_latents s)) = storage (latent_in s) \<and>
   deref s (fst (get_latents s)) = deref s (latent_in s) \<and>
   (\<forall>e s'. step e s = Inr s' \<longrightarrow>
      deref s' (fst (get_latents s)) = deref s' (latent_in s')) \<and>
   (\<forall>e target n s'. run e target n s = Inr s' \<longrightarrow>
      deref s' (fst (get_latents s)) = deref s' (latent_in s'))"
proof -
  have a: "deref s' (fst (get_latents s)) = deref s' (latent_in s')"
    if "latent_in s' = latent_in s" for s'
    using that by (simp add: get_latents_def deref_def)
  have "\<forall>e s'. step e s = Inr s' \<longrightarrow> deref s' (fst (get_latents s)) = deref s' (latent_in s')"
    using step_frame a by (simp add: same_setup_def)
  moreover have "\<forall>e target n s'. run e target n s = Inr s' \<longrightarrow>
      deref s' (fst (get_latents s)) = deref s' (latent_in s')"
    using run_frame(6) a by blast
  ultimately show ?thesis by (simp add: get_latents_def deref_def)
qed

theorem get_latents_shares_storage_witness:
  "step ex_env (ex_s0\<lparr>cur_step := Some 0\<rparr>) = Inr ex_s1 \<and>
   deref ex_s1 (fst (get_latents (ex_s0\<lparr>cur_step := Some 0\<rparr>))) = deref ex_s1 (latent_in ex_s1) \<and>
   run ex_env ex_target 2 ex_proj = Inr ex_final \<and>
   deref ex_final (fst (get_latents ex_proj)) = deref ex_final (latent_in ex_final)"
proof -
  have a: "deref ex_s1 (fst (get_latents (ex_s0\<lparr>cur_step := Some 0\<rparr>))) = deref ex_s1 (latent_in ex_s1)"
    using get_latents_shares_storage[of "ex_s0\<lparr>cur_step := Some 0\<rparr>"] ex_step0 by blast
  have b: "deref ex_final (fst (get_latents ex_proj)) = deref ex_final (latent_in ex_final)"
    using get_latents_shares_storage[of ex_proj] ex_run_final by blast
  show ?thesis using ex_step0 a ex_run_final b by (intro conjI)
qed

text \<open>
  The returned tensor is not a snapshot: taken from the fresh example Projector it reads
  \<open>[[0, 0]]\<close>, and after a run of two steps the same tensor reads the optimized latent.
\<close>

theorem get_latents_snapshot_counterexample:
  "fst (get_latents ex_proj) = \<lparr>storage = 0, requires_grad = False, is_leaf = True, is_float = True\<rparr> \<and>
   deref ex_proj (fst (get_latents ex_proj)) = [[0, 0]] \<and>
   run ex_env ex_target 2 ex_proj = Inr ex_final \<and>
   deref ex_final (fst (get_latents ex_proj))
     = [[- (10000000/100000001), - (10000000/100000001)]] \<and>
   deref ex_final (fst (get_latents ex_proj)) \<noteq> deref ex_proj (fst (get_latents ex_proj))"
proof -
  have a: "fst (get_latents ex_proj) = \<lparr>storage = 0, requires_grad = False, is_leaf = True, is_float = True\<rparr>"
    by (simp add: get_latents_def ex_proj_eq)
  have b: "deref ex_proj \<lparr>storage = 0, requires_grad = False, is_leaf = True, is_float = True\<rparr> = [[0, 0]]"
    by (simp add: deref_def ex_proj_eq)
  have c: "deref ex_final \<lparr>storage = 0, requires_grad = False, is_leaf = True, is_float = True\<rparr>
     = [[- (10000000/100000001), - (10000000/100000001)]]"
    by (simp add: deref_def ex_final_def ex_s2_def ex_s1_def ex_s0_def ex_proj_eq)
  show ?thesis using ex_run_final by (simp add: a b c)
qed

text \<open>
  Claim C9.  \<^verbatim>\<open>get_images()\<close> runs the generator on the value of the stored latent, whatever
  the random source and the last perturbed latent are, and neither \<^verbatim>\<open>get_images()\<close> nor
  \<^verbatim>\<open>get_latents()\<close> changes the state.
\<close>

theorem result_readers_are_pure:
  "get_images e s = (g_synth e (deref s (latent_in s)), s) \<and>
   snd (get_images e s) = s \<and>
   snd (get_latents s) = s \<and>
   fst (get_images (e\<lparr>randn := r, randn_like := r'\<rparr>) (s\<lparr>latent_expr := x, rng := k\<rparr>))
     = fst (get_images e s)"
  by (simp add: get_images_def get_latents_def deref_def)



end
